theory Spec2Isabelle
  imports Complex_Main "HOL-Library.Word"
begin

unbundle bit_operations_syntax

section \<open>Data model\<close>

text \<open>
  The development follows \<^verbatim>\<open>src/kernels/webgl/gpgpu_util.ts\<close>. A float of a
  \<^verbatim>\<open>Float32Array\<close> is its 32-bit pattern, a byte of a \<^verbatim>\<open>Uint8Array\<close> an 8-bit
  word. A JavaScript value that may be \<^verbatim>\<open>undefined\<close> (a constant that only a WebGL2
  context has, a variable that is declared and never assigned) is an \<open>option\<close>.
\<close>

type_synonym float32 = "32 word"
type_synonym u8 = "8 word"
type_synonym u16 = "16 word"

text \<open>
  The errors a call can end with. \<open>TypeError\<close> and \<open>RangeError\<close> are the errors the
  JavaScript runtime raises (reading a property of \<^verbatim>\<open>null\<close>, a typed-array view on a
  buffer of the wrong byte length); the other four are the error kinds of the
  specification, raised by the helpers of \<^verbatim>\<open>webgl_util\<close> and \<^verbatim>\<open>tex_util\<close>.
\<close>

datatype error =
    TypeError
  | RangeError
  | ConfigurationError
  | SizeError
  | TransferError
  | ShapeMismatch

text \<open>The flags that \<^verbatim>\<open>ENV.get\<close> is asked for.\<close>

record ENV =
  WEBGL_VERSION :: int
  WEBGL_RENDER_FLOAT_ENABLED :: bool
  WEBGL_DOWNLOAD_FLOAT_ENABLED :: bool

text \<open>
  A typed array is its elements. The bytes of its underlying \<^verbatim>\<open>ArrayBuffer\<close> are
  computed from them in the byte order of the platform (see \<open>buffer\<close> below).
\<close>

datatype typed_array =
    Float32Array "float32 list"
  | Uint16Array "u16 list"
  | Uint8Array "u8 list"

text \<open>
  The calls issued to the context, in the order of their arguments in the source. A
  texture or buffer handle is a number; \<open>None\<close> is \<^verbatim>\<open>null\<close>. The second
  argument of \<^verbatim>\<open>bufferData\<close> is a size in bytes or an array whose content fills the
  buffer. \<^verbatim>\<open>readPixels\<close> either fills an array of the caller (\<open>ReadPixels\<close>) or
  writes at an offset of the bound pixel-pack buffer (\<open>ReadPixelsToBuffer\<close>).
\<close>

datatype gl_call =
    CreateTexture
  | BindTexture int "nat option"
  | TexParameteri int int int
  | TexImage2D int int "int option" nat nat int "int option" "int option"
  | CreateBuffer
  | BindBuffer "int option" "nat option"
  | BufferData "int option" "nat + typed_array" int
  | ReadPixels nat nat nat nat int "int option"
  | ReadPixelsToBuffer nat nat nat nat int "int option" nat
  | GetBufferSubDataAsync "int option" nat

text \<open>
  The rendering context: the constants the code reads from it (those of WebGL2 only are
  optional), the platform's maximum texture size, and the behaviour of the driver, which
  the code does not determine: whether an error is pending after a sequence of calls, and
  the bytes that a read-back issued after a sequence of calls delivers.
\<close>

record WebGLRenderingContext =
  RGBA :: int
  UNSIGNED_BYTE :: int
  FLOAT :: int
  TEXTURE_2D :: int
  TEXTURE_WRAP_S :: int
  TEXTURE_WRAP_T :: int
  TEXTURE_MIN_FILTER :: int
  TEXTURE_MAG_FILTER :: int
  CLAMP_TO_EDGE :: int
  NEAREST :: int
  STATIC_DRAW :: int
  RED :: "int option"
  R32F :: "int option"
  R16F :: "int option"
  HALF_FLOAT :: "int option"
  PIXEL_PACK_BUFFER :: "int option"
  MAX_TEXTURE_SIZE :: nat
  gl_error :: "gl_call list \<Rightarrow> bool"
  pixel_bytes :: "gl_call list \<Rightarrow> nat \<Rightarrow> u8"

text \<open>The half-float extension object, when there is one.\<close>

record HalfFloatExtension =
  HALF_FLOAT_OES :: "int option"

record TextureConfig =
  internalFormat :: "int option"
  textureFormat :: "int option"
  internalFormatHalfFloat :: "int option"
  downloadTextureFormat :: int
  downloadUnpackNumChannels :: nat
  downloadTextureType :: int
  defaultTextureType :: "int option"
  textureTypeUpload :: int
  textureTypeRender :: "int option"
  defaultNumChannels :: nat
  textureTypeHalfFloat :: "int option"

text \<open>
  The module-level table \<^verbatim>\<open>LOOKUP\<close>. Its keys are the property names that the
  constants convert to; the key \<open>None\<close> is the name \<^verbatim>\<open>undefined\<close>.
\<close>

type_synonym lookup_table = "int option \<rightharpoonup> string"

section \<open>Capability resolution\<close>

text \<open>
  Lines 116 to 132 of \<^verbatim>\<open>getTextureConfig\<close>: the names entered into \<^verbatim>\<open>LOOKUP\<close>.
  An assignment under \<^verbatim>\<open>if (x != null)\<close> happens when \<open>x\<close> is defined.
\<close>

definition set_if_defined :: "int option \<Rightarrow> string \<Rightarrow> lookup_table \<Rightarrow> lookup_table" where
  "set_if_defined k name L = (case k of None \<Rightarrow> L | Some c \<Rightarrow> L(Some c \<mapsto> name))"

definition register_names ::
  "WebGLRenderingContext \<Rightarrow> HalfFloatExtension option \<Rightarrow> lookup_table \<Rightarrow> lookup_table" where
  "register_names gl textureHalfFloatExtension L =
     (let L1 = L(Some (RGBA gl) \<mapsto> ''RGBA'');
          L2 = L1(Some (UNSIGNED_BYTE gl) \<mapsto> ''UNSIGNED_BYTE'');
          L3 = set_if_defined (RED gl) ''RED'' L2;
          L4 = set_if_defined (R32F gl) ''RGBA'' L3;
          L5 = set_if_defined (HALF_FLOAT gl) ''HALF_FLOAT'' L4;
          L6 = L5(Some (FLOAT gl) \<mapsto> ''FLOAT'')
      in (case textureHalfFloatExtension of
            None \<Rightarrow> L6
          | Some e \<Rightarrow> L6(HALF_FLOAT_OES e \<mapsto> ''HALF_FLOAT_OES'')))"

text \<open>
  Reading \<^verbatim>\<open>textureHalfFloatExtension.HALF_FLOAT_OES\<close>: a \<^verbatim>\<open>TypeError\<close> when the
  extension is \<^verbatim>\<open>null\<close>.
\<close>

definition read_HALF_FLOAT_OES :: "HalfFloatExtension option \<Rightarrow> error + int option" where
  "read_HALF_FLOAT_OES textureHalfFloatExtension =
     (case textureHalfFloatExtension of
        None \<Rightarrow> Inl TypeError
      | Some e \<Rightarrow> Inr (HALF_FLOAT_OES e))"

text \<open>
  Lines 155 to 179: the values that depend on the tier, as the tuple (internalFormat,
  internalFormatHalfFloat, textureFormat, downloadUnpackNumChannels, defaultTextureType,
  defaultNumChannels, textureTypeHalfFloat). On the legacy tier with float rendering,
  \<^verbatim>\<open>textureTypeHalfFloat\<close> is never assigned.
\<close>

definition tier_formats ::
  "ENV \<Rightarrow> WebGLRenderingContext \<Rightarrow> HalfFloatExtension option \<Rightarrow>
   error + (int option \<times> int option \<times> int option \<times> nat \<times> int option \<times> nat \<times> int option)" where
  "tier_formats env gl textureHalfFloatExtension =
     (if WEBGL_VERSION env = 2 then
        Inr (R32F gl, R16F gl, RED gl, 4, Some (FLOAT gl), 1, HALF_FLOAT gl)
      else if \<not> WEBGL_RENDER_FLOAT_ENABLED env then
        (case read_HALF_FLOAT_OES textureHalfFloatExtension of
           Inl e \<Rightarrow> Inl e
         | Inr h \<Rightarrow> Inr (Some (RGBA gl), Some (RGBA gl), Some (RGBA gl), 4, h, 4, h))
      else
        Inr (Some (RGBA gl), Some (RGBA gl), Some (RGBA gl), 4, Some (FLOAT gl), 4, None))"

text \<open>
  \<^verbatim>\<open>getTextureConfig\<close>, with the table \<^verbatim>\<open>LOOKUP\<close> passed in and returned. The table
  is written before anything can fail, so it is returned updated also with an error.
\<close>

definition getTextureConfig ::
  "ENV \<Rightarrow> WebGLRenderingContext \<Rightarrow> HalfFloatExtension option \<Rightarrow> lookup_table \<Rightarrow>
   (error + TextureConfig) \<times> lookup_table" where
  "getTextureConfig env gl textureHalfFloatExtension LOOKUP =
     (let LOOKUP' = register_names gl textureHalfFloatExtension LOOKUP in
      (case tier_formats env gl textureHalfFloatExtension of
         Inl e \<Rightarrow> (Inl e, LOOKUP')
       | Inr (iFormat, iFormatHalfFloat, tFormat, dUnpackNumChannels, dTextureType,
              dNumChannels, tTypeHalfFloat) \<Rightarrow>
           (let dlTextureType =
                  (if WEBGL_DOWNLOAD_FLOAT_ENABLED env then FLOAT gl else UNSIGNED_BYTE gl) in
            (case (if WEBGL_RENDER_FLOAT_ENABLED env then Inr (Some (FLOAT gl))
                   else read_HALF_FLOAT_OES textureHalfFloatExtension) of
               Inl e \<Rightarrow> (Inl e, LOOKUP')
             | Inr tTypeRender \<Rightarrow>
                 (Inr \<lparr> internalFormat = iFormat,
                        textureFormat = tFormat,
                        internalFormatHalfFloat = iFormatHalfFloat,
                        downloadTextureFormat = RGBA gl,
                        downloadUnpackNumChannels = dUnpackNumChannels,
                        downloadTextureType = dlTextureType,
                        defaultTextureType = dTextureType,
                        textureTypeUpload = FLOAT gl,
                        textureTypeRender = tTypeRender,
                        defaultNumChannels = dNumChannels,
                        textureTypeHalfFloat = tTypeHalfFloat \<rparr>, LOOKUP')))))"

section \<open>Layout codec\<close>

text \<open>
  Modelled from the spec: \<^verbatim>\<open>tex_util.getPackedMatrixTextureShapeWidthHeight\<close> is not
  among the sources. The specification gives \<^verbatim>\<open>packedShape(rows, cols)\<close> as
  \<^verbatim>\<open>(ceil(cols/2), ceil(rows/2))\<close>, width first; the quotient is a fraction and the
  ceiling rounds it up.
\<close>

definition getPackedMatrixTextureShapeWidthHeight :: "nat \<Rightarrow> nat \<Rightarrow> nat \<times> nat" where
  "getPackedMatrixTextureShapeWidthHeight rows columns =
     (nat \<lceil>(of_nat columns :: rat) / 2\<rceil>, nat \<lceil>(of_nat rows :: rat) / 2\<rceil>)"

text \<open>
  Modelled from the spec: \<^verbatim>\<open>tex_util.getPackedRGBAArraySizeFromMatrixShape\<close> is not
  among the sources. A packed texture has four channels for each of its texels.
\<close>

definition getPackedRGBAArraySizeFromMatrixShape :: "nat \<Rightarrow> nat \<Rightarrow> nat" where
  "getPackedRGBAArraySizeFromMatrixShape rows columns =
     (let (w, h) = getPackedMatrixTextureShapeWidthHeight rows columns in w * h * 4)"

text \<open>
  Modelled from the spec: the packed layout of \<^verbatim>\<open>tex_util\<close>, which is not among the
  sources. The channels of a packed texture in buffer order: texel rows from the top,
  texels from the left, channels R, G, B, A. Each comes with its index in the buffer and
  with the
  logical position (row, column) that it holds: the texel at (px, py) covers the 2 by 2
  block at (2 py, 2 px), and the scenario of the specification (the matrix with the rows
  1, 2 and 3, 4 packs into the single texel 1, 2, 3, 4) fixes the order of the block
  within the texel.
\<close>

definition packed_slots :: "nat \<Rightarrow> nat \<Rightarrow> (nat \<times> nat \<times> nat) list" where
  "packed_slots rows columns =
     (let (w, h) = getPackedMatrixTextureShapeWidthHeight rows columns
      in [(4 * (py * w + px) + k, 2 * py + k div 2, 2 * px + k mod 2).
            py \<leftarrow> [0..<h], px \<leftarrow> [0..<w], k \<leftarrow> [0..<4]])"

text \<open>
  Modelled from the spec: \<^verbatim>\<open>tex_util.encodeMatrixToPackedRGBA\<close> is not among the
  sources. \<^verbatim>\<open>encodePackedRGBA(matrix, rows, cols)\<close>: for each output texel, up to four
  logical values are placed into R, G, B, A; positions beyond the logical matrix bounds
  stay zero, as in the fresh buffer. This is the loop over the texels.
\<close>

definition encode_texels :: "float32 list \<Rightarrow> nat \<Rightarrow> nat \<Rightarrow> float32 list" where
  "encode_texels matrix rows columns =
     fold (\<lambda>(slot, i, j) rgba.
             if i < rows \<and> j < columns then rgba[slot := matrix ! (i * columns + j)] else rgba)
       (packed_slots rows columns)
       (replicate (getPackedRGBAArraySizeFromMatrixShape rows columns) 0)"

text \<open>
  Modelled from the spec: the entry point of the encoder, \<^verbatim>\<open>encodePackedRGBA\<close>. A
  matrix whose length disagrees with the declared shape is a \<open>ShapeMismatch\<close>, one of
  the error kinds of the specification.
\<close>

definition encodePackedRGBA :: "float32 list \<Rightarrow> nat \<Rightarrow> nat \<Rightarrow> error + float32 list" where
  "encodePackedRGBA matrix rows columns =
     (if length matrix \<noteq> rows * columns then Inl ShapeMismatch
      else Inr (encode_texels matrix rows columns))"

text \<open>
  Modelled from the spec: \<^verbatim>\<open>tex_util.decodeMatrixFromPackedRGBA\<close> is not among the
  sources. \<^verbatim>\<open>decodePackedRGBA(rgbaBuffer, rows, cols)\<close>: the inverse mapping; each of
  the up to four logical positions of a texel is reconstructed, and a position beyond
  (rows, cols) is discarded: the check is per logical index. This is the loop over the
  texels.
\<close>

definition decode_texels :: "float32 list \<Rightarrow> nat \<Rightarrow> nat \<Rightarrow> float32 list" where
  "decode_texels rgba rows columns =
     fold (\<lambda>(slot, i, j) matrix.
             if i < rows \<and> j < columns then matrix[i * columns + j := rgba ! slot] else matrix)
       (packed_slots rows columns)
       (replicate (rows * columns) 0)"

text \<open>
  Modelled from the spec: the entry point of the decoder, \<^verbatim>\<open>decodePackedRGBA\<close>. The
  buffer may be larger than the texture; one that is too small for the declared shape is
  a \<open>ShapeMismatch\<close>.
\<close>

definition decodePackedRGBA :: "float32 list \<Rightarrow> nat \<Rightarrow> nat \<Rightarrow> error + float32 list" where
  "decodePackedRGBA rgba rows columns =
     (if length rgba < getPackedRGBAArraySizeFromMatrixShape rows columns then Inl ShapeMismatch
      else Inr (decode_texels rgba rows columns))"

text \<open>
  Modelled from the spec: \<^verbatim>\<open>tex_util.getUnpackedArraySizeFromMatrixSize\<close> is not
  among the sources. The unpacked layout has \<open>channels\<close> slots for each logical value.
\<close>

definition getUnpackedArraySizeFromMatrixSize :: "nat \<Rightarrow> nat \<Rightarrow> nat" where
  "getUnpackedArraySizeFromMatrixSize matrixSize channelsPerTexture =
     matrixSize * channelsPerTexture"

text \<open>
  Modelled from the spec: \<^verbatim>\<open>tex_util.decodeMatrixFromUnpackedArray\<close> is not among the
  sources. Decoding selects the first channel of each texel and writes it into the
  matrix it is given, whose length stays what it is, as that of every typed array.
\<close>

definition decodeMatrixFromUnpackedArray ::
  "float32 list \<Rightarrow> float32 list \<Rightarrow> nat \<Rightarrow> float32 list" where
  "decodeMatrixFromUnpackedArray unpackedArray matrix channelsPerTexture =
     map (\<lambda>i. if 0 < channelsPerTexture \<and> i * channelsPerTexture < length unpackedArray
               then unpackedArray ! (i * channelsPerTexture) else matrix ! i)
       [0..<length matrix]"

text \<open>
  The two functions that follow are not part of the program. They name, for the proofs,
  the buffer index of a logical position and the logical position of a buffer index.
\<close>

definition packed_offset :: "nat \<Rightarrow> nat \<Rightarrow> nat \<Rightarrow> nat" where
  "packed_offset columns i j =
     4 * ((i div 2) * ((columns + 1) div 2) + j div 2) + (2 * (i mod 2) + j mod 2)"

definition slot_position :: "nat \<Rightarrow> nat \<Rightarrow> nat \<times> nat" where
  "slot_position columns s =
     (2 * (s div 4 div ((columns + 1) div 2)) + s mod 4 div 2,
      2 * (s div 4 mod ((columns + 1) div 2)) + s mod 4 mod 2)"

section \<open>Typed arrays and their bytes\<close>

text \<open>
  The bytes of an \<open>n\<close>-byte word and the word of a list of bytes, in the byte order of
  the platform: least significant byte first when \<open>littleEndian\<close> holds.
\<close>

definition word_bytes :: "bool \<Rightarrow> nat \<Rightarrow> 'a::len word \<Rightarrow> u8 list" where
  "word_bytes littleEndian n x =
     (let bs = map (\<lambda>k. ucast (drop_bit (8 * k) x)) [0..<n]
      in if littleEndian then bs else rev bs)"

definition word_of_bytes :: "bool \<Rightarrow> u8 list \<Rightarrow> 'a::len word" where
  "word_of_bytes littleEndian bs =
     foldr (\<lambda>b acc. ucast b OR push_bit 8 acc) (if littleEndian then bs else rev bs) 0"

definition chunks :: "nat \<Rightarrow> 'a list \<Rightarrow> 'a list list" where
  "chunks n xs = map (\<lambda>i. take n (drop (n * i) xs)) [0..<length xs div n]"

text \<open>The property \<^verbatim>\<open>.buffer\<close> and the length in bytes of a typed array.\<close>

definition buffer :: "bool \<Rightarrow> typed_array \<Rightarrow> u8 list" where
  "buffer littleEndian a =
     (case a of
        Float32Array xs \<Rightarrow> concat (map (word_bytes littleEndian 4) xs)
      | Uint16Array xs \<Rightarrow> concat (map (word_bytes littleEndian 2) xs)
      | Uint8Array xs \<Rightarrow> xs)"

definition byteLength :: "typed_array \<Rightarrow> nat" where
  "byteLength a =
     (case a of
        Float32Array xs \<Rightarrow> 4 * length xs
      | Uint16Array xs \<Rightarrow> 2 * length xs
      | Uint8Array xs \<Rightarrow> length xs)"

text \<open>
  \<^verbatim>\<open>new Float32Array(buffer)\<close>: a view of the bytes as floats, four bytes each. The
  runtime raises a \<^verbatim>\<open>RangeError\<close> when the byte length is not a multiple of four.
\<close>

definition new_Float32Array :: "bool \<Rightarrow> u8 list \<Rightarrow> error + float32 list" where
  "new_Float32Array littleEndian bytes =
     (if length bytes mod 4 \<noteq> 0 then Inl RangeError
      else Inr (map (word_of_bytes littleEndian) (chunks 4 bytes)))"

text \<open>
  The number that a bit pattern of a float stands for (\<open>None\<close> for the infinities
  and the NaNs), and the bit pattern of a natural number below \<open>2 ^ 24\<close>, which is what
  reading an element of an integer array as a float gives.
\<close>

definition float32_value :: "float32 \<Rightarrow> rat option" where
  "float32_value x =
     (let negative = bit x 31;
          e = unat (drop_bit 23 x AND 255);
          f = unat (x AND 8388607);
          magnitude =
            (if e = 0 then of_nat f / 2 ^ 149
             else if 150 \<le> e then of_nat (8388608 + f) * 2 ^ (e - 150)
             else of_nat (8388608 + f) / 2 ^ (150 - e))
      in if e = 255 then None else Some (if negative then - magnitude else magnitude))"

fun leading_bit :: "nat \<Rightarrow> nat" where
  "leading_bit n = (if n < 2 then 0 else Suc (leading_bit (n div 2)))"

definition float32_of_nat :: "nat \<Rightarrow> float32" where
  "float32_of_nat n =
     (if n = 0 then 0
      else (let e = leading_bit n
            in push_bit 23 (of_nat (127 + e)) OR of_nat ((n - 2 ^ e) * 2 ^ (23 - e))))"

text \<open>
  The elements of a typed array read as floats: the cast \<^verbatim>\<open>as Float32Array\<close> of the
  source changes no value, and an element of an integer array reads as that integer.
\<close>

definition elements :: "typed_array \<Rightarrow> float32 list" where
  "elements a =
     (case a of
        Float32Array xs \<Rightarrow> xs
      | Uint16Array xs \<Rightarrow> map (\<lambda>x. float32_of_nat (unat x)) xs
      | Uint8Array xs \<Rightarrow> map (\<lambda>x. float32_of_nat (unat x)) xs)"

text \<open>
  A read-back writes the bytes that the driver delivers over the bytes of the array it
  is given. The array keeps its kind and its length.
\<close>

definition overwrite :: "bool \<Rightarrow> typed_array \<Rightarrow> (nat \<Rightarrow> u8) \<Rightarrow> typed_array" where
  "overwrite littleEndian a bytes =
     (let bs = map bytes [0..<byteLength a]
      in (case a of
            Float32Array xs \<Rightarrow> Float32Array (map (word_of_bytes littleEndian) (chunks 4 bs))
          | Uint16Array xs \<Rightarrow> Uint16Array (map (word_of_bytes littleEndian) (chunks 2 bs))
          | Uint8Array xs \<Rightarrow> Uint8Array bs))"

section \<open>Calls on the context\<close>

text \<open>
  An operation on the context takes the calls issued so far and returns its result, a
  value or the error it threw, with the calls issued up to then.
\<close>

type_synonym 'a gl_op = "gl_call list \<Rightarrow> (error + 'a) \<times> gl_call list"

definition gl_return :: "'a \<Rightarrow> 'a gl_op" where
  "gl_return x calls = (Inr x, calls)"

definition gl_then :: "'a gl_op \<Rightarrow> ('a \<Rightarrow> 'b gl_op) \<Rightarrow> 'b gl_op" where
  "gl_then m f calls =
     (case m calls of
        (Inl e, calls') \<Rightarrow> (Inl e, calls')
      | (Inr x, calls') \<Rightarrow> f x calls')"

text \<open>
  Modelled from the spec: \<^verbatim>\<open>webgl_util.callAndCheck\<close> is not among the sources. The
  failure policy of the specification: an error that the context reports during a
  texture or buffer operation is fatal to the calling operation and surfaces
  immediately, as a \<open>TransferError\<close>.
\<close>

definition callAndCheck :: "WebGLRenderingContext \<Rightarrow> gl_call \<Rightarrow> unit gl_op" where
  "callAndCheck gl c calls =
     (let calls' = calls @ [c] in
      if gl_error gl calls' then (Inl TransferError, calls') else (Inr (), calls'))"

text \<open>
  Modelled from the spec: \<^verbatim>\<open>webgl_util.createTexture\<close> is not among the sources. It
  follows the same failure policy; the handle of a new texture is the number of
  textures created before it.
\<close>

definition createTexture :: "WebGLRenderingContext \<Rightarrow> nat gl_op" where
  "createTexture gl calls =
     (let calls' = calls @ [CreateTexture] in
      if gl_error gl calls' then (Inl TransferError, calls')
      else (Inr (count_list calls CreateTexture), calls'))"

text \<open>
  Modelled from the spec: \<^verbatim>\<open>webgl_util.validateTextureSize\<close> is not among the
  sources. A request whose dimensions exceed the platform's maximum texture size fails
  with a \<open>SizeError\<close>; the check issues no call.
\<close>

definition validateTextureSize :: "WebGLRenderingContext \<Rightarrow> nat \<Rightarrow> nat \<Rightarrow> unit gl_op" where
  "validateTextureSize gl width height calls =
     (if MAX_TEXTURE_SIZE gl < width \<or> MAX_TEXTURE_SIZE gl < height then (Inl SizeError, calls)
      else (Inr (), calls))"

text \<open>
  \<^verbatim>\<open>gl.createBuffer()\<close> is called directly: it returns \<^verbatim>\<open>null\<close> where the driver
  fails, and nothing is thrown.
\<close>

definition createBuffer :: "WebGLRenderingContext \<Rightarrow> (nat option) gl_op" where
  "createBuffer gl calls =
     (let calls' = calls @ [CreateBuffer] in
      (Inr (if gl_error gl calls' then None else Some (count_list calls CreateBuffer)), calls'))"

text \<open>
  \<^verbatim>\<open>gl.readPixels\<close> into an array, under \<^verbatim>\<open>callAndCheck\<close>, and the read of the
  pixel-pack buffer that the asynchronous download awaits. A missing extension object
  is a \<^verbatim>\<open>TypeError\<close>; a rejected promise is the error of the call.
\<close>

definition readPixels ::
  "bool \<Rightarrow> WebGLRenderingContext \<Rightarrow> nat \<Rightarrow> nat \<Rightarrow> nat \<Rightarrow> nat \<Rightarrow> int \<Rightarrow> int option \<Rightarrow>
   typed_array \<Rightarrow> typed_array gl_op" where
  "readPixels littleEndian gl x y width height format type pixels =
     gl_then (callAndCheck gl (ReadPixels x y width height format type)) (\<lambda>_ calls.
       (Inr (overwrite littleEndian pixels (pixel_bytes gl calls)), calls))"

definition getBufferSubDataAsync ::
  "bool \<Rightarrow> WebGLRenderingContext \<Rightarrow> unit option \<Rightarrow> int option \<Rightarrow> nat \<Rightarrow> typed_array \<Rightarrow>
   typed_array gl_op" where
  "getBufferSubDataAsync littleEndian gl getBufferSubDataAsyncExtension target srcByteOffset
       dstBuffer =
     (case getBufferSubDataAsyncExtension of
        None \<Rightarrow> (\<lambda>calls. (Inl TypeError, calls))
      | Some _ \<Rightarrow>
          gl_then (callAndCheck gl (GetBufferSubDataAsync target srcByteOffset)) (\<lambda>_ calls.
            (Inr (overwrite littleEndian dstBuffer (pixel_bytes gl calls)), calls)))"

section \<open>Texture allocation\<close>

text \<open>
  \<^verbatim>\<open>createAndConfigureTexture\<close>, statement by statement. The parameter
  \<open>numChannels\<close> is kept as the source has it.
\<close>

definition createAndConfigureTexture ::
  "WebGLRenderingContext \<Rightarrow> nat \<Rightarrow> nat \<Rightarrow> nat \<Rightarrow> int option \<Rightarrow> int option \<Rightarrow> int option \<Rightarrow>
   nat gl_op" where
  "createAndConfigureTexture gl width height numChannels glInternalFormat glTextureFormat
       glTextureType =
     gl_then (validateTextureSize gl width height) (\<lambda>_.
     gl_then (createTexture gl) (\<lambda>texture.
     gl_then (callAndCheck gl (BindTexture (TEXTURE_2D gl) (Some texture))) (\<lambda>_.
     gl_then (callAndCheck gl
                (TexParameteri (TEXTURE_2D gl) (TEXTURE_WRAP_S gl) (CLAMP_TO_EDGE gl))) (\<lambda>_.
     gl_then (callAndCheck gl
                (TexParameteri (TEXTURE_2D gl) (TEXTURE_WRAP_T gl) (CLAMP_TO_EDGE gl))) (\<lambda>_.
     gl_then (callAndCheck gl
                (TexParameteri (TEXTURE_2D gl) (TEXTURE_MIN_FILTER gl) (NEAREST gl))) (\<lambda>_.
     gl_then (callAndCheck gl
                (TexParameteri (TEXTURE_2D gl) (TEXTURE_MAG_FILTER gl) (NEAREST gl))) (\<lambda>_.
     gl_then (callAndCheck gl
                (TexImage2D (TEXTURE_2D gl) 0 glInternalFormat width height 0
                   glTextureFormat glTextureType)) (\<lambda>_.
     gl_then (callAndCheck gl (BindTexture (TEXTURE_2D gl) None)) (\<lambda>_.
     gl_return texture)))))))))"

text \<open>
  The four allocation functions. \<^verbatim>\<open>tex_util.getUnpackedMatrixTextureShapeWidthHeight\<close>
  is not among the sources and the specification only bounds what it returns, so it is
  a parameter of the three functions that call it.
\<close>

definition createUploadMatrixTexture ::
  "(nat \<Rightarrow> nat \<Rightarrow> nat \<times> nat) \<Rightarrow> WebGLRenderingContext \<Rightarrow> nat \<Rightarrow> nat \<Rightarrow> TextureConfig \<Rightarrow>
   nat gl_op" where
  "createUploadMatrixTexture getUnpackedMatrixTextureShapeWidthHeight gl rows columns
       textureConfig =
     (let (width, height) = getUnpackedMatrixTextureShapeWidthHeight rows columns;
          numChannels = 1
      in createAndConfigureTexture gl width height numChannels (internalFormat textureConfig)
           (textureFormat textureConfig) (Some (textureTypeUpload textureConfig)))"

definition createRenderMatrixTexture ::
  "(nat \<Rightarrow> nat \<Rightarrow> nat \<times> nat) \<Rightarrow> WebGLRenderingContext \<Rightarrow> nat \<Rightarrow> nat \<Rightarrow> TextureConfig \<Rightarrow>
   nat gl_op" where
  "createRenderMatrixTexture getUnpackedMatrixTextureShapeWidthHeight gl rows columns
       textureConfig =
     (let (width, height) = getUnpackedMatrixTextureShapeWidthHeight rows columns;
          numChannels = 1
      in createAndConfigureTexture gl width height numChannels (internalFormat textureConfig)
           (textureFormat textureConfig) (textureTypeRender textureConfig))"

definition createPixelDataTexture ::
  "(nat \<Rightarrow> nat \<Rightarrow> nat \<times> nat) \<Rightarrow> WebGLRenderingContext \<Rightarrow> nat \<Rightarrow> nat \<Rightarrow> TextureConfig \<Rightarrow>
   nat gl_op" where
  "createPixelDataTexture getUnpackedMatrixTextureShapeWidthHeight gl rows columns
       textureConfig =
     (let (width, height) = getUnpackedMatrixTextureShapeWidthHeight rows columns;
          numChannels = 4
      in createAndConfigureTexture gl width height numChannels (Some (RGBA gl))
           (Some (RGBA gl)) (Some (UNSIGNED_BYTE gl)))"

definition createPackedMatrixTexture ::
  "WebGLRenderingContext \<Rightarrow> nat \<Rightarrow> nat \<Rightarrow> TextureConfig \<Rightarrow> nat gl_op" where
  "createPackedMatrixTexture gl rows columns textureConfig =
     (let (width, height) = getPackedMatrixTextureShapeWidthHeight rows columns;
          numChannels = 4
      in createAndConfigureTexture gl width height numChannels (internalFormat textureConfig)
           (textureFormat textureConfig) (defaultTextureType textureConfig))"

section \<open>Download\<close>

definition getDownloadTargetArrayBuffer :: "ENV \<Rightarrow> nat \<Rightarrow> nat \<Rightarrow> nat \<Rightarrow> typed_array" where
  "getDownloadTargetArrayBuffer env rows columns numChannels =
     (let isFloatTexture = WEBGL_DOWNLOAD_FLOAT_ENABLED env in
      if isFloatTexture then
        Float32Array (replicate (getUnpackedArraySizeFromMatrixSize (rows * columns) numChannels) 0)
      else
        Uint8Array (replicate (rows * columns * 4) 0))"

definition decodeDownloadTargetArrayBuffer ::
  "bool \<Rightarrow> ENV \<Rightarrow> typed_array \<Rightarrow> nat \<Rightarrow> nat \<Rightarrow> nat \<Rightarrow> error + float32 list" where
  "decodeDownloadTargetArrayBuffer littleEndian env downloadTarget rows columns channelsPerPixel =
     (let isFloatTexture = WEBGL_DOWNLOAD_FLOAT_ENABLED env in
      if isFloatTexture then
        (let matrix = replicate (rows * columns) 0
         in Inr (decodeMatrixFromUnpackedArray (elements downloadTarget) matrix channelsPerPixel))
      else
        new_Float32Array littleEndian (buffer littleEndian downloadTarget))"

text \<open>
  The asynchronous download, as the run of its body: the value of the promise is the
  value returned after the awaited read, and a rejection is the error. In the byte mode
  \<open>bufferSizeBytes\<close> is the download target itself.
\<close>

definition downloadMatrixFromOutputTextureAsync ::
  "bool \<Rightarrow> ENV \<Rightarrow> WebGLRenderingContext \<Rightarrow> unit option \<Rightarrow> nat \<Rightarrow> nat \<Rightarrow> TextureConfig \<Rightarrow>
   (float32 list) gl_op" where
  "downloadMatrixFromOutputTextureAsync littleEndian env gl getBufferSubDataAsyncExtension
       rows columns textureConfig =
     (let channelsPerPixel = 4;
          downloadTarget = getDownloadTargetArrayBuffer env rows columns channelsPerPixel;
          bufferSizeBytes =
            (case downloadTarget of
               Float32Array xs \<Rightarrow> Inl (length xs * 4)
             | _ \<Rightarrow> Inr downloadTarget)
      in
      gl_then (createBuffer gl) (\<lambda>buffer.
      gl_then (callAndCheck gl (BindBuffer (PIXEL_PACK_BUFFER gl) buffer)) (\<lambda>_.
      gl_then (callAndCheck gl
                 (BufferData (PIXEL_PACK_BUFFER gl) bufferSizeBytes (STATIC_DRAW gl))) (\<lambda>_.
      gl_then (callAndCheck gl
                 (ReadPixelsToBuffer 0 0 columns rows (RGBA gl)
                    (defaultTextureType textureConfig) 0)) (\<lambda>_.
      gl_then (getBufferSubDataAsync littleEndian gl getBufferSubDataAsyncExtension
                 (PIXEL_PACK_BUFFER gl) 0 downloadTarget) (\<lambda>filled calls.
        (decodeDownloadTargetArrayBuffer littleEndian env filled rows columns channelsPerPixel,
         calls)))))))"

definition downloadMatrixFromOutputTexture ::
  "(nat \<Rightarrow> nat \<Rightarrow> nat \<times> nat) \<Rightarrow> bool \<Rightarrow> ENV \<Rightarrow> WebGLRenderingContext \<Rightarrow> nat \<Rightarrow> nat \<Rightarrow>
   TextureConfig \<Rightarrow> HalfFloatExtension option \<Rightarrow> (float32 list) gl_op" where
  "downloadMatrixFromOutputTexture getUnpackedMatrixTextureShapeWidthHeight littleEndian env gl
       rows columns textureConfig textureHalfFloatExtension =
     (let (w, h) = getUnpackedMatrixTextureShapeWidthHeight rows columns;
          downloadTarget =
            getDownloadTargetArrayBuffer env rows columns (downloadUnpackNumChannels textureConfig)
      in
      gl_then (readPixels littleEndian gl 0 0 w h (downloadTextureFormat textureConfig)
                 (Some (downloadTextureType textureConfig)) downloadTarget) (\<lambda>filled calls.
        (decodeDownloadTargetArrayBuffer littleEndian env filled rows columns
           (downloadUnpackNumChannels textureConfig), calls)))"

section \<open>Example inputs\<close>

text \<open>
  Two contexts with the constants of the WebGL 1 and WebGL 2 standards, a driver that
  reports no error and reads back zeros; the maximum texture size is 16384.
\<close>

definition webgl1_context :: WebGLRenderingContext where
  "webgl1_context =
     \<lparr> RGBA = 6408, UNSIGNED_BYTE = 5121, FLOAT = 5126, TEXTURE_2D = 3553,
       TEXTURE_WRAP_S = 10242, TEXTURE_WRAP_T = 10243, TEXTURE_MIN_FILTER = 10241,
       TEXTURE_MAG_FILTER = 10240, CLAMP_TO_EDGE = 33071, NEAREST = 9728,
       STATIC_DRAW = 35044, RED = None, R32F = None, R16F = None, HALF_FLOAT = None,
       PIXEL_PACK_BUFFER = None, MAX_TEXTURE_SIZE = 16384,
       gl_error = (\<lambda>calls. False), pixel_bytes = (\<lambda>calls i. 0) \<rparr>"

definition webgl2_context :: WebGLRenderingContext where
  "webgl2_context =
     webgl1_context \<lparr> RED := Some 6403, R32F := Some 33326, R16F := Some 33325,
                      HALF_FLOAT := Some 5131, PIXEL_PACK_BUFFER := Some 35051 \<rparr>"

text \<open>
  A context with the same seven format and type constants as the first, and with
  another texture target constant, a smaller maximum texture size and a driver that
  reports an error after every call.
\<close>

definition webgl1_failing_context :: WebGLRenderingContext where
  "webgl1_failing_context =
     webgl1_context \<lparr> TEXTURE_2D := 0, MAX_TEXTURE_SIZE := 4096,
                      gl_error := (\<lambda>calls. True) \<rparr>"

definition oes_texture_half_float :: HalfFloatExtension where
  "oes_texture_half_float = \<lparr> HALF_FLOAT_OES = Some 36193 \<rparr>"

text \<open>
  The legacy tier without float rendering and float download, the modern tier with both,
  the legacy tier with float download only, and the descriptor of the legacy tier with
  the half-float extension.
\<close>

definition legacy_env :: ENV where
  "legacy_env =
     \<lparr> WEBGL_VERSION = 1, WEBGL_RENDER_FLOAT_ENABLED = False,
       WEBGL_DOWNLOAD_FLOAT_ENABLED = False \<rparr>"

definition modern_env :: ENV where
  "modern_env =
     \<lparr> WEBGL_VERSION = 2, WEBGL_RENDER_FLOAT_ENABLED = True,
       WEBGL_DOWNLOAD_FLOAT_ENABLED = True \<rparr>"

definition legacy_float_download_env :: ENV where
  "legacy_float_download_env =
     \<lparr> WEBGL_VERSION = 1, WEBGL_RENDER_FLOAT_ENABLED = False,
       WEBGL_DOWNLOAD_FLOAT_ENABLED = True \<rparr>"

definition legacy_half_float_config :: TextureConfig where
  "legacy_half_float_config =
     \<lparr> internalFormat = Some 6408, textureFormat = Some 6408,
       internalFormatHalfFloat = Some 6408, downloadTextureFormat = 6408,
       downloadUnpackNumChannels = 4, downloadTextureType = 5121,
       defaultTextureType = Some 36193, textureTypeUpload = 5126,
       textureTypeRender = Some 36193, defaultNumChannels = 4,
       textureTypeHalfFloat = Some 36193 \<rparr>"

text \<open>
  The table as the module creates it (\<^verbatim>\<open>const LOOKUP = {}\<close>), and a table with one
  entry of another origin.
\<close>

definition LOOKUP_initial :: lookup_table where
  "LOOKUP_initial = Map.empty"

definition LOOKUP_other :: lookup_table where
  "LOOKUP_other = [Some 0 \<mapsto> ''NONE'']"

text \<open>An unpacked shape of one texel for each matrix entry: the width is the column count.\<close>

definition columns_by_rows :: "nat \<Rightarrow> nat \<Rightarrow> nat \<times> nat" where
  "columns_by_rows rows columns = (columns, rows)"

text \<open>A 3 by 3 matrix of the bit patterns 1 to 9, its packed encoding, and the
  encoding with the padding overwritten.\<close>

definition matrix_3x3 :: "float32 list" where
  "matrix_3x3 = [1, 2, 3, 4, 5, 6, 7, 8, 9]"

definition packed_3x3 :: "float32 list" where
  "packed_3x3 = [1, 2, 4, 5, 3, 0, 6, 0, 7, 8, 0, 0, 9, 0, 0, 0]"

definition packed_3x3_dirty :: "float32 list" where
  "packed_3x3_dirty = [1, 2, 4, 5, 3, 77, 6, 77, 7, 8, 77, 77, 9, 77, 77, 77, 88]"

section \<open>Properties of the packed shape\<close>

lemma ceiling_half: "nat \<lceil>(of_nat n :: rat) / 2\<rceil> = (n + 1) div 2"
  by linarith

lemma packed_shape_div:
  "getPackedMatrixTextureShapeWidthHeight rows columns = ((columns + 1) div 2, (rows + 1) div 2)"
  by (simp only: getPackedMatrixTextureShapeWidthHeight_def ceiling_half)

text \<open>
  C3. For rows, cols \<open>\<ge>\<close> 1 the packed shape is (ceil(cols/2), ceil(rows/2)): the width
  is the least number whose double reaches the column count, the height the least whose
  double reaches the row count. A (1,1) matrix packs into (1,1) texels and a (3,3)
  matrix into (2,2) texels.
\<close>

theorem packed_shape_is_ceiling:
  "fst (getPackedMatrixTextureShapeWidthHeight rows columns) = (columns + 1) div 2
   \<and> snd (getPackedMatrixTextureShapeWidthHeight rows columns) = (rows + 1) div 2
   \<and> columns \<le> 2 * fst (getPackedMatrixTextureShapeWidthHeight rows columns)
   \<and> 2 * fst (getPackedMatrixTextureShapeWidthHeight rows columns) < columns + 2
   \<and> rows \<le> 2 * snd (getPackedMatrixTextureShapeWidthHeight rows columns)
   \<and> 2 * snd (getPackedMatrixTextureShapeWidthHeight rows columns) < rows + 2
   \<and> getPackedMatrixTextureShapeWidthHeight 1 1 = (1, 1)
   \<and> getPackedMatrixTextureShapeWidthHeight 3 3 = (2, 2)"
  unfolding packed_shape_div by (simp, arith)

section \<open>Properties of capability resolution\<close>

lemmas resolution_defs = getTextureConfig_def tier_formats_def read_HALF_FLOAT_OES_def

lemma snd_getTextureConfig:
  "snd (getTextureConfig env gl ext L) = register_names gl ext L"
  by (simp add: getTextureConfig_def Let_def split: sum.splits prod.splits)

lemma fst_getTextureConfig_independent:
  "fst (getTextureConfig env gl ext L) = fst (getTextureConfig env gl ext L')"
  by (simp add: getTextureConfig_def Let_def split: sum.splits prod.splits)

lemma register_names_idem:
  "register_names gl ext (register_names gl ext L) = register_names gl ext L"
  by (auto simp: register_names_def set_if_defined_def Let_def fun_eq_iff split: option.splits)

lemma legacy_half_float_resolution:
  "fst (getTextureConfig legacy_env webgl1_context (Some oes_texture_half_float) LOOKUP_initial)
     = Inr legacy_half_float_config"
  by (simp add: resolution_defs legacy_env_def webgl1_context_def oes_texture_half_float_def
        legacy_half_float_config_def Let_def)

text \<open>
  C4. Capability resolution returns a descriptor whenever float rendering is enabled or
  the half-float extension is there, and the download texture type of a descriptor it
  returns is \<^verbatim>\<open>gl.FLOAT\<close> if float download is enabled and
  \<^verbatim>\<open>gl.UNSIGNED_BYTE\<close> otherwise, never anything else; as the two constants
  differ, the type is float exactly when the capability is present.
\<close>

theorem download_type_from_capability:
  "(\<forall>cfg. fst (getTextureConfig env gl ext L) = Inr cfg \<longrightarrow>
      downloadTextureType cfg =
        (if WEBGL_DOWNLOAD_FLOAT_ENABLED env then FLOAT gl else UNSIGNED_BYTE gl)
      \<and> (downloadTextureType cfg = FLOAT gl \<or> downloadTextureType cfg = UNSIGNED_BYTE gl)
      \<and> (FLOAT gl \<noteq> UNSIGNED_BYTE gl \<longrightarrow>
           (downloadTextureType cfg = FLOAT gl \<longleftrightarrow> WEBGL_DOWNLOAD_FLOAT_ENABLED env)))
   \<and> (WEBGL_RENDER_FLOAT_ENABLED env \<or> ext \<noteq> None \<longrightarrow>
        (\<exists>cfg. fst (getTextureConfig env gl ext L) = Inr cfg
           \<and> downloadTextureType cfg =
               (if WEBGL_DOWNLOAD_FLOAT_ENABLED env then FLOAT gl else UNSIGNED_BYTE gl)))
   \<and> (WEBGL_RENDER_FLOAT_ENABLED env \<or> ext \<noteq> None \<longrightarrow> WEBGL_DOWNLOAD_FLOAT_ENABLED env \<longrightarrow>
        (\<exists>cfg. fst (getTextureConfig env gl ext L) = Inr cfg
           \<and> downloadTextureType cfg = FLOAT gl))
   \<and> (WEBGL_RENDER_FLOAT_ENABLED env \<or> ext \<noteq> None \<longrightarrow> \<not> WEBGL_DOWNLOAD_FLOAT_ENABLED env \<longrightarrow>
        (\<exists>cfg. fst (getTextureConfig env gl ext L) = Inr cfg
           \<and> downloadTextureType cfg = UNSIGNED_BYTE gl))"
proof (intro conjI allI impI)
  fix cfg
  assume r: "fst (getTextureConfig env gl ext L) = Inr cfg"
  then show "downloadTextureType cfg =
      (if WEBGL_DOWNLOAD_FLOAT_ENABLED env then FLOAT gl else UNSIGNED_BYTE gl)"
    by (auto simp: resolution_defs Let_def split: if_splits sum.splits option.splits prod.splits)
  then show "downloadTextureType cfg = FLOAT gl \<or> downloadTextureType cfg = UNSIGNED_BYTE gl"
    by simp
  assume "FLOAT gl \<noteq> UNSIGNED_BYTE gl"
  with \<open>downloadTextureType cfg =
      (if WEBGL_DOWNLOAD_FLOAT_ENABLED env then FLOAT gl else UNSIGNED_BYTE gl)\<close>
  show "(downloadTextureType cfg = FLOAT gl) = WEBGL_DOWNLOAD_FLOAT_ENABLED env"
    by auto
next
  assume "WEBGL_RENDER_FLOAT_ENABLED env \<or> ext \<noteq> None"
  then show "\<exists>cfg. fst (getTextureConfig env gl ext L) = Inr cfg
           \<and> downloadTextureType cfg =
               (if WEBGL_DOWNLOAD_FLOAT_ENABLED env then FLOAT gl else UNSIGNED_BYTE gl)"
    by (auto simp: resolution_defs Let_def split: option.splits)
next
  assume "WEBGL_RENDER_FLOAT_ENABLED env \<or> ext \<noteq> None" and "WEBGL_DOWNLOAD_FLOAT_ENABLED env"
  then show "\<exists>cfg. fst (getTextureConfig env gl ext L) = Inr cfg
           \<and> downloadTextureType cfg = FLOAT gl"
    by (auto simp: resolution_defs Let_def split: option.splits)
next
  assume "WEBGL_RENDER_FLOAT_ENABLED env \<or> ext \<noteq> None"
    and "\<not> WEBGL_DOWNLOAD_FLOAT_ENABLED env"
  then show "\<exists>cfg. fst (getTextureConfig env gl ext L) = Inr cfg
           \<and> downloadTextureType cfg = UNSIGNED_BYTE gl"
    by (auto simp: resolution_defs Let_def split: option.splits)
qed

theorem download_type_from_capability_witness:
  "fst (getTextureConfig legacy_env webgl1_context (Some oes_texture_half_float) LOOKUP_initial)
     = Inr legacy_half_float_config
   \<and> FLOAT webgl1_context \<noteq> UNSIGNED_BYTE webgl1_context
   \<and> \<not> WEBGL_DOWNLOAD_FLOAT_ENABLED legacy_env
   \<and> downloadTextureType legacy_half_float_config = UNSIGNED_BYTE webgl1_context
   \<and> downloadTextureType legacy_half_float_config \<noteq> FLOAT webgl1_context
   \<and> WEBGL_RENDER_FLOAT_ENABLED modern_env
   \<and> WEBGL_DOWNLOAD_FLOAT_ENABLED modern_env
   \<and> FLOAT webgl2_context \<noteq> UNSIGNED_BYTE webgl2_context
   \<and> (\<exists>cfg. fst (getTextureConfig modern_env webgl2_context None LOOKUP_initial) = Inr cfg
          \<and> downloadTextureType cfg = FLOAT webgl2_context
          \<and> downloadTextureType cfg \<noteq> UNSIGNED_BYTE webgl2_context)
   \<and> (\<exists>cfg. fst (getTextureConfig legacy_float_download_env webgl1_context
                    (Some oes_texture_half_float) LOOKUP_initial) = Inr cfg
          \<and> downloadTextureType cfg = FLOAT webgl1_context)"
proof -
  have d: "FLOAT webgl1_context \<noteq> UNSIGNED_BYTE webgl1_context"
    by (simp add: webgl1_context_def)
  have d2: "FLOAT webgl2_context \<noteq> UNSIGNED_BYTE webgl2_context"
    by (simp add: webgl2_context_def webgl1_context_def)
  have e: "\<not> WEBGL_DOWNLOAD_FLOAT_ENABLED legacy_env"
    by (simp add: legacy_env_def)
  have m: "WEBGL_RENDER_FLOAT_ENABLED modern_env" "WEBGL_DOWNLOAD_FLOAT_ENABLED modern_env"
    by (simp_all add: modern_env_def)
  have f: "WEBGL_DOWNLOAD_FLOAT_ENABLED legacy_float_download_env"
    by (simp add: legacy_float_download_env_def)
  from download_type_from_capability
         [of legacy_env webgl1_context "Some oes_texture_half_float" LOOKUP_initial]
       legacy_half_float_resolution d e
  have a: "downloadTextureType legacy_half_float_config = UNSIGNED_BYTE webgl1_context
           \<and> downloadTextureType legacy_half_float_config \<noteq> FLOAT webgl1_context"
    by auto
  from download_type_from_capability [of modern_env webgl2_context None LOOKUP_initial] m d2
  have b: "\<exists>cfg. fst (getTextureConfig modern_env webgl2_context None LOOKUP_initial) = Inr cfg
          \<and> downloadTextureType cfg = FLOAT webgl2_context
          \<and> downloadTextureType cfg \<noteq> UNSIGNED_BYTE webgl2_context"
    by auto
  from download_type_from_capability
         [of legacy_float_download_env webgl1_context "Some oes_texture_half_float"
            LOOKUP_initial] f
  have c: "\<exists>cfg. fst (getTextureConfig legacy_float_download_env webgl1_context
                    (Some oes_texture_half_float) LOOKUP_initial) = Inr cfg
          \<and> downloadTextureType cfg = FLOAT webgl1_context"
    by auto
  from a b c d d2 e m legacy_half_float_resolution show ?thesis
    by simp
qed

text \<open>
  C5, as the code has it. With float rendering enabled, resolution returns a descriptor
  whose render type is \<^verbatim>\<open>gl.FLOAT\<close>. Without it, on either tier, resolution returns
  a descriptor whose render type is the extension's \<^verbatim>\<open>HALF_FLOAT_OES\<close> when there is
  an extension, and ends with the \<^verbatim>\<open>TypeError\<close> of reading a property of
  \<^verbatim>\<open>null\<close> when there is none.
\<close>

theorem render_type_or_type_error:
  "(WEBGL_RENDER_FLOAT_ENABLED env \<longrightarrow>
      (\<exists>cfg. fst (getTextureConfig env gl ext L) = Inr cfg
         \<and> textureTypeRender cfg = Some (FLOAT gl)))
   \<and> (\<not> WEBGL_RENDER_FLOAT_ENABLED env \<longrightarrow>
      (case ext of
         None \<Rightarrow> fst (getTextureConfig env gl ext L) = Inl TypeError
       | Some e \<Rightarrow> (\<exists>cfg. fst (getTextureConfig env gl ext L) = Inr cfg
                     \<and> textureTypeRender cfg = HALF_FLOAT_OES e)))"
  by (auto simp: resolution_defs Let_def split: option.splits)

theorem render_type_or_type_error_witness:
  "WEBGL_RENDER_FLOAT_ENABLED modern_env
   \<and> (\<exists>cfg. fst (getTextureConfig modern_env webgl2_context None LOOKUP_initial) = Inr cfg
         \<and> textureTypeRender cfg = Some (FLOAT webgl2_context))
   \<and> \<not> WEBGL_RENDER_FLOAT_ENABLED legacy_env
   \<and> (\<exists>cfg. fst (getTextureConfig legacy_env webgl1_context (Some oes_texture_half_float)
                    LOOKUP_initial) = Inr cfg
         \<and> textureTypeRender cfg = HALF_FLOAT_OES oes_texture_half_float)
   \<and> fst (getTextureConfig legacy_env webgl2_context None LOOKUP_initial) = Inl TypeError"
proof -
  have m: "WEBGL_RENDER_FLOAT_ENABLED modern_env"
    by (simp add: modern_env_def)
  have l: "\<not> WEBGL_RENDER_FLOAT_ENABLED legacy_env"
    by (simp add: legacy_env_def)
  from render_type_or_type_error [of modern_env webgl2_context None LOOKUP_initial]
    render_type_or_type_error
      [of legacy_env webgl1_context "Some oes_texture_half_float" LOOKUP_initial]
    render_type_or_type_error [of legacy_env webgl2_context None LOOKUP_initial] m l
  show ?thesis
    by simp
qed

text \<open>
  C5 as stated fails: on the legacy tier without float rendering and without the
  half-float extension, resolution ends with a \<^verbatim>\<open>TypeError\<close>, which is not a
  configuration error.
\<close>

theorem render_failure_is_type_error:
  "WEBGL_VERSION legacy_env \<noteq> 2
   \<and> \<not> WEBGL_RENDER_FLOAT_ENABLED legacy_env
   \<and> fst (getTextureConfig legacy_env webgl1_context None LOOKUP_initial) = Inl TypeError
   \<and> fst (getTextureConfig legacy_env webgl1_context None LOOKUP_initial)
       \<noteq> Inl ConfigurationError"
  by (simp add: resolution_defs legacy_env_def Let_def)

lemma register_names_entry:
  "register_names gl ext L k =
     (if (case ext of None \<Rightarrow> False | Some e \<Rightarrow> k = HALF_FLOAT_OES e)
        then Some ''HALF_FLOAT_OES''
      else if k = Some (FLOAT gl) then Some ''FLOAT''
      else if k \<noteq> None \<and> k = HALF_FLOAT gl then Some ''HALF_FLOAT''
      else if k \<noteq> None \<and> k = R32F gl then Some ''RGBA''
      else if k \<noteq> None \<and> k = RED gl then Some ''RED''
      else if k = Some (UNSIGNED_BYTE gl) then Some ''UNSIGNED_BYTE''
      else if k = Some (RGBA gl) then Some ''RGBA''
      else L k)"
  by (auto simp: register_names_def set_if_defined_def Let_def split: option.splits)

text \<open>
  C6, as the code has it. A call changes the module-level table \<^verbatim>\<open>LOOKUP\<close> and
  nothing else, also when it ends with an error. It writes the entry of RGBA with the
  name RGBA, of UNSIGNED_BYTE with UNSIGNED_BYTE, of RED with RED, of R32F with RGBA and
  of HALF_FLOAT with HALF_FLOAT where the context defines these three, of FLOAT with
  FLOAT, and of the extension's HALF_FLOAT_OES with HALF_FLOAT_OES where there is an
  extension; where two of these keys coincide the entry is that of the later one in
  this order. Every other entry is what it was, and a second call with the same
  arguments leaves the table as the first call left it.
\<close>

theorem lookup_only_gains_names:
  "(\<forall>k. snd (getTextureConfig env gl ext L) k =
      (if (case ext of None \<Rightarrow> False | Some e \<Rightarrow> k = HALF_FLOAT_OES e)
         then Some ''HALF_FLOAT_OES''
       else if k = Some (FLOAT gl) then Some ''FLOAT''
       else if k \<noteq> None \<and> k = HALF_FLOAT gl then Some ''HALF_FLOAT''
       else if k \<noteq> None \<and> k = R32F gl then Some ''RGBA''
       else if k \<noteq> None \<and> k = RED gl then Some ''RED''
       else if k = Some (UNSIGNED_BYTE gl) then Some ''UNSIGNED_BYTE''
       else if k = Some (RGBA gl) then Some ''RGBA''
       else L k))
   \<and> (\<forall>e. ext = Some e \<longrightarrow>
         snd (getTextureConfig env gl ext L) (HALF_FLOAT_OES e) = Some ''HALF_FLOAT_OES'')
   \<and> ((\<forall>e. ext = Some e \<longrightarrow> HALF_FLOAT_OES e \<noteq> Some (FLOAT gl)) \<longrightarrow>
         snd (getTextureConfig env gl ext L) (Some (FLOAT gl)) = Some ''FLOAT'')
   \<and> (\<forall>k. k \<notin> {Some (RGBA gl), Some (UNSIGNED_BYTE gl), Some (FLOAT gl)}
           \<and> (k = None \<or> k \<notin> {RED gl, R32F gl, HALF_FLOAT gl})
           \<and> (case ext of None \<Rightarrow> True | Some e \<Rightarrow> k \<noteq> HALF_FLOAT_OES e)
         \<longrightarrow> snd (getTextureConfig env gl ext L) k = L k)
   \<and> snd (getTextureConfig env gl ext (snd (getTextureConfig env gl ext L)))
       = snd (getTextureConfig env gl ext L)"
proof (intro conjI allI impI)
  fix k
  show "snd (getTextureConfig env gl ext L) k =
      (if (case ext of None \<Rightarrow> False | Some e \<Rightarrow> k = HALF_FLOAT_OES e)
         then Some ''HALF_FLOAT_OES''
       else if k = Some (FLOAT gl) then Some ''FLOAT''
       else if k \<noteq> None \<and> k = HALF_FLOAT gl then Some ''HALF_FLOAT''
       else if k \<noteq> None \<and> k = R32F gl then Some ''RGBA''
       else if k \<noteq> None \<and> k = RED gl then Some ''RED''
       else if k = Some (UNSIGNED_BYTE gl) then Some ''UNSIGNED_BYTE''
       else if k = Some (RGBA gl) then Some ''RGBA''
       else L k)"
    unfolding snd_getTextureConfig by (rule register_names_entry)
next
  fix e
  assume "ext = Some e"
  then show "snd (getTextureConfig env gl ext L) (HALF_FLOAT_OES e) = Some ''HALF_FLOAT_OES''"
    unfolding snd_getTextureConfig by (simp add: register_names_entry)
next
  assume "\<forall>e. ext = Some e \<longrightarrow> HALF_FLOAT_OES e \<noteq> Some (FLOAT gl)"
  then show "snd (getTextureConfig env gl ext L) (Some (FLOAT gl)) = Some ''FLOAT''"
    unfolding snd_getTextureConfig by (auto simp: register_names_entry split: option.splits)
next
  fix k
  assume "k \<notin> {Some (RGBA gl), Some (UNSIGNED_BYTE gl), Some (FLOAT gl)}
           \<and> (k = None \<or> k \<notin> {RED gl, R32F gl, HALF_FLOAT gl})
           \<and> (case ext of None \<Rightarrow> True | Some e \<Rightarrow> k \<noteq> HALF_FLOAT_OES e)"
  then show "snd (getTextureConfig env gl ext L) k = L k"
    unfolding snd_getTextureConfig by (auto simp: register_names_entry split: option.splits)
next
  show "snd (getTextureConfig env gl ext (snd (getTextureConfig env gl ext L)))
          = snd (getTextureConfig env gl ext L)"
    by (simp only: snd_getTextureConfig register_names_idem)
qed

theorem lookup_only_gains_names_witness:
  "Some 0 \<notin> {Some (RGBA webgl2_context), Some (UNSIGNED_BYTE webgl2_context),
               Some (FLOAT webgl2_context)}
   \<and> Some 0 \<notin> {RED webgl2_context, R32F webgl2_context, HALF_FLOAT webgl2_context}
   \<and> Some 0 \<noteq> HALF_FLOAT_OES oes_texture_half_float
   \<and> HALF_FLOAT_OES oes_texture_half_float \<noteq> Some (FLOAT webgl2_context)
   \<and> snd (getTextureConfig modern_env webgl2_context (Some oes_texture_half_float) LOOKUP_other)
        (Some 0) = Some ''NONE''
   \<and> snd (getTextureConfig modern_env webgl2_context (Some oes_texture_half_float) LOOKUP_other)
        (Some 6408) = Some ''RGBA''
   \<and> snd (getTextureConfig modern_env webgl2_context (Some oes_texture_half_float) LOOKUP_other)
        (Some 5121) = Some ''UNSIGNED_BYTE''
   \<and> snd (getTextureConfig modern_env webgl2_context (Some oes_texture_half_float) LOOKUP_other)
        (Some 6403) = Some ''RED''
   \<and> snd (getTextureConfig modern_env webgl2_context (Some oes_texture_half_float) LOOKUP_other)
        (Some 33326) = Some ''RGBA''
   \<and> snd (getTextureConfig modern_env webgl2_context (Some oes_texture_half_float) LOOKUP_other)
        (Some 5131) = Some ''HALF_FLOAT''
   \<and> snd (getTextureConfig modern_env webgl2_context (Some oes_texture_half_float) LOOKUP_other)
        (Some 5126) = Some ''FLOAT''
   \<and> snd (getTextureConfig modern_env webgl2_context (Some oes_texture_half_float) LOOKUP_other)
        (Some 36193) = Some ''HALF_FLOAT_OES''
   \<and> snd (getTextureConfig legacy_env webgl1_context None LOOKUP_initial) (Some 5126)
        = Some ''FLOAT''"
proof -
  have a: "Some 0 \<notin> {Some (RGBA webgl2_context), Some (UNSIGNED_BYTE webgl2_context),
                       Some (FLOAT webgl2_context)}"
    by (simp add: webgl2_context_def webgl1_context_def)
  have b: "Some 0 \<notin> {RED webgl2_context, R32F webgl2_context, HALF_FLOAT webgl2_context}"
    by (simp add: webgl2_context_def webgl1_context_def)
  have c: "Some 0 \<noteq> HALF_FLOAT_OES oes_texture_half_float"
    by (simp add: oes_texture_half_float_def)
  have d: "HALF_FLOAT_OES oes_texture_half_float \<noteq> Some (FLOAT webgl2_context)"
    by (simp add: oes_texture_half_float_def webgl2_context_def webgl1_context_def)
  note t = lookup_only_gains_names
             [of modern_env webgl2_context "Some oes_texture_half_float" LOOKUP_other]
  note u = lookup_only_gains_names [of legacy_env webgl1_context None LOOKUP_initial]
  from t have entry: "snd (getTextureConfig modern_env webgl2_context
                        (Some oes_texture_half_float) LOOKUP_other) k =
      (if k = HALF_FLOAT_OES oes_texture_half_float then Some ''HALF_FLOAT_OES''
       else if k = Some (FLOAT webgl2_context) then Some ''FLOAT''
       else if k \<noteq> None \<and> k = HALF_FLOAT webgl2_context then Some ''HALF_FLOAT''
       else if k \<noteq> None \<and> k = R32F webgl2_context then Some ''RGBA''
       else if k \<noteq> None \<and> k = RED webgl2_context then Some ''RED''
       else if k = Some (UNSIGNED_BYTE webgl2_context) then Some ''UNSIGNED_BYTE''
       else if k = Some (RGBA webgl2_context) then Some ''RGBA''
       else LOOKUP_other k)" for k
    by simp
  from u have float1: "snd (getTextureConfig legacy_env webgl1_context None LOOKUP_initial)
                         (Some (FLOAT webgl1_context)) = Some ''FLOAT''"
    by simp
  have f1: "FLOAT webgl1_context = 5126"
    by (simp add: webgl1_context_def)
  show ?thesis
    using a b c d float1 unfolding f1 entry
    by (simp add: webgl2_context_def webgl1_context_def oes_texture_half_float_def
          LOOKUP_other_def)
qed

text \<open>
  C6 as stated fails: a call on the table as the module creates it returns a table
  that is not the one it was given.
\<close>

theorem lookup_is_modified:
  "snd (getTextureConfig legacy_env webgl1_context None LOOKUP_initial) \<noteq> LOOKUP_initial"
proof
  assume "snd (getTextureConfig legacy_env webgl1_context None LOOKUP_initial) = LOOKUP_initial"
  then have "register_names webgl1_context None LOOKUP_initial (Some 6408)
               = LOOKUP_initial (Some 6408)"
    by (simp only: snd_getTextureConfig)
  then show False
    by (simp add: register_names_def set_if_defined_def webgl1_context_def LOOKUP_initial_def
          Let_def)
qed

text \<open>
  C7. The descriptor, or the error, that capability resolution returns is a function of
  the three environment flags, the seven constants RGBA, UNSIGNED_BYTE, FLOAT, RED, R32F,
  R16F and HALF_FLOAT of the context, and the extension's HALF_FLOAT_OES: two calls whose
  inputs agree on these return the same thing, in every field, whatever else differs
  between the two contexts (the other constants, the maximum texture size, the
  driver) and whatever the table \<^verbatim>\<open>LOOKUP\<close> holds at either call. So a second call
  with the same inputs, made after the first, returns what the first returned.
\<close>

theorem resolution_deterministic:
  "(WEBGL_VERSION env = WEBGL_VERSION env'
      \<and> WEBGL_RENDER_FLOAT_ENABLED env = WEBGL_RENDER_FLOAT_ENABLED env'
      \<and> WEBGL_DOWNLOAD_FLOAT_ENABLED env = WEBGL_DOWNLOAD_FLOAT_ENABLED env'
      \<and> RGBA gl = RGBA gl' \<and> UNSIGNED_BYTE gl = UNSIGNED_BYTE gl' \<and> FLOAT gl = FLOAT gl'
      \<and> RED gl = RED gl' \<and> R32F gl = R32F gl' \<and> R16F gl = R16F gl'
      \<and> HALF_FLOAT gl = HALF_FLOAT gl'
      \<and> map_option HALF_FLOAT_OES ext = map_option HALF_FLOAT_OES ext'
    \<longrightarrow> fst (getTextureConfig env gl ext L) = fst (getTextureConfig env' gl' ext' L'))
   \<and> fst (getTextureConfig env gl ext L) = fst (getTextureConfig env gl ext L')
   \<and> fst (getTextureConfig env gl ext (snd (getTextureConfig env gl ext L)))
       = fst (getTextureConfig env gl ext L)"
proof (intro conjI impI)
  assume "WEBGL_VERSION env = WEBGL_VERSION env'
      \<and> WEBGL_RENDER_FLOAT_ENABLED env = WEBGL_RENDER_FLOAT_ENABLED env'
      \<and> WEBGL_DOWNLOAD_FLOAT_ENABLED env = WEBGL_DOWNLOAD_FLOAT_ENABLED env'
      \<and> RGBA gl = RGBA gl' \<and> UNSIGNED_BYTE gl = UNSIGNED_BYTE gl' \<and> FLOAT gl = FLOAT gl'
      \<and> RED gl = RED gl' \<and> R32F gl = R32F gl' \<and> R16F gl = R16F gl'
      \<and> HALF_FLOAT gl = HALF_FLOAT gl'
      \<and> map_option HALF_FLOAT_OES ext = map_option HALF_FLOAT_OES ext'"
  then show "fst (getTextureConfig env gl ext L) = fst (getTextureConfig env' gl' ext' L')"
    by (cases ext; cases ext') (auto simp: resolution_defs Let_def)
next
  show "fst (getTextureConfig env gl ext L) = fst (getTextureConfig env gl ext L')"
    by (rule fst_getTextureConfig_independent)
next
  show "fst (getTextureConfig env gl ext (snd (getTextureConfig env gl ext L)))
          = fst (getTextureConfig env gl ext L)"
    by (rule fst_getTextureConfig_independent)
qed

theorem resolution_deterministic_witness:
  "RGBA webgl1_context = RGBA webgl1_failing_context
   \<and> UNSIGNED_BYTE webgl1_context = UNSIGNED_BYTE webgl1_failing_context
   \<and> FLOAT webgl1_context = FLOAT webgl1_failing_context
   \<and> RED webgl1_context = RED webgl1_failing_context
   \<and> R32F webgl1_context = R32F webgl1_failing_context
   \<and> R16F webgl1_context = R16F webgl1_failing_context
   \<and> HALF_FLOAT webgl1_context = HALF_FLOAT webgl1_failing_context
   \<and> MAX_TEXTURE_SIZE webgl1_context \<noteq> MAX_TEXTURE_SIZE webgl1_failing_context
   \<and> gl_error webgl1_context [] \<noteq> gl_error webgl1_failing_context []
   \<and> TEXTURE_2D webgl1_context \<noteq> TEXTURE_2D webgl1_failing_context
   \<and> fst (getTextureConfig legacy_env webgl1_failing_context (Some oes_texture_half_float)
             LOOKUP_other) = Inr legacy_half_float_config"
proof -
  have c: "RGBA webgl1_context = RGBA webgl1_failing_context"
    "UNSIGNED_BYTE webgl1_context = UNSIGNED_BYTE webgl1_failing_context"
    "FLOAT webgl1_context = FLOAT webgl1_failing_context"
    "RED webgl1_context = RED webgl1_failing_context"
    "R32F webgl1_context = R32F webgl1_failing_context"
    "R16F webgl1_context = R16F webgl1_failing_context"
    "HALF_FLOAT webgl1_context = HALF_FLOAT webgl1_failing_context"
    by (simp_all add: webgl1_failing_context_def)
  have d: "MAX_TEXTURE_SIZE webgl1_context \<noteq> MAX_TEXTURE_SIZE webgl1_failing_context"
    "gl_error webgl1_context [] \<noteq> gl_error webgl1_failing_context []"
    "TEXTURE_2D webgl1_context \<noteq> TEXTURE_2D webgl1_failing_context"
    by (simp_all add: webgl1_failing_context_def webgl1_context_def)
  from resolution_deterministic
         [of legacy_env legacy_env webgl1_context webgl1_failing_context
            "Some oes_texture_half_float" "Some oes_texture_half_float"
            LOOKUP_initial LOOKUP_other] c
  have "fst (getTextureConfig legacy_env webgl1_context (Some oes_texture_half_float)
               LOOKUP_initial)
          = fst (getTextureConfig legacy_env webgl1_failing_context
                   (Some oes_texture_half_float) LOOKUP_other)"
    by simp
  with legacy_half_float_resolution c d show ?thesis
    by simp
qed

section \<open>Properties of texture allocation\<close>

lemmas allocation_defs = createAndConfigureTexture_def gl_then_def gl_return_def
  validateTextureSize_def createTexture_def callAndCheck_def

lemma createAndConfigureTexture_oversize:
  "MAX_TEXTURE_SIZE gl < width \<or> MAX_TEXTURE_SIZE gl < height \<Longrightarrow>
   createAndConfigureTexture gl width height n iF tF tT calls = (Inl SizeError, calls)"
  by (simp add: createAndConfigureTexture_def gl_then_def validateTextureSize_def)

lemma createAndConfigureTexture_TexImage2D:
  "TexImage2D t l a w h b f ty
     \<in> set (drop (length calls)
              (snd (createAndConfigureTexture gl width height n iF tF tT calls)))
   \<Longrightarrow> a = iF \<and> f = tF \<and> ty = tT \<and> w = width \<and> h = height"
  by (auto simp: allocation_defs Let_def split: if_splits)

lemma createAndConfigureTexture_ok:
  "\<forall>cs. \<not> gl_error gl cs \<Longrightarrow> width \<le> MAX_TEXTURE_SIZE gl \<Longrightarrow> height \<le> MAX_TEXTURE_SIZE gl \<Longrightarrow>
   createAndConfigureTexture gl width height n iF tF tT calls =
     (Inr (count_list calls CreateTexture),
      calls @ [CreateTexture,
        BindTexture (TEXTURE_2D gl) (Some (count_list calls CreateTexture)),
        TexParameteri (TEXTURE_2D gl) (TEXTURE_WRAP_S gl) (CLAMP_TO_EDGE gl),
        TexParameteri (TEXTURE_2D gl) (TEXTURE_WRAP_T gl) (CLAMP_TO_EDGE gl),
        TexParameteri (TEXTURE_2D gl) (TEXTURE_MIN_FILTER gl) (NEAREST gl),
        TexParameteri (TEXTURE_2D gl) (TEXTURE_MAG_FILTER gl) (NEAREST gl),
        TexImage2D (TEXTURE_2D gl) 0 iF width height 0 tF tT,
        BindTexture (TEXTURE_2D gl) None])"
  by (simp add: allocation_defs Let_def)

lemma webgl1_context_no_error: "\<forall>cs. \<not> gl_error webgl1_context cs"
  by (simp add: webgl1_context_def)

text \<open>
  C8. An allocation whose width or height exceeds the platform's maximum texture size
  ends with a \<open>SizeError\<close> and has issued no call: the sequence of calls is the one
  it started from. This holds for \<^verbatim>\<open>createAndConfigureTexture\<close> and for the four
  allocation functions, each with the shape it computes. Conversely, an allocation that
  has issued any call was within the maximum.
\<close>

theorem oversize_fails_before_allocation:
  "(MAX_TEXTURE_SIZE gl < width \<or> MAX_TEXTURE_SIZE gl < height \<longrightarrow>
      createAndConfigureTexture gl width height n iF tF tT calls = (Inl SizeError, calls))
   \<and> (MAX_TEXTURE_SIZE gl < fst (shape rows columns)
        \<or> MAX_TEXTURE_SIZE gl < snd (shape rows columns) \<longrightarrow>
      createUploadMatrixTexture shape gl rows columns cfg calls = (Inl SizeError, calls)
      \<and> createRenderMatrixTexture shape gl rows columns cfg calls = (Inl SizeError, calls)
      \<and> createPixelDataTexture shape gl rows columns cfg calls = (Inl SizeError, calls))
   \<and> (MAX_TEXTURE_SIZE gl < (columns + 1) div 2 \<or> MAX_TEXTURE_SIZE gl < (rows + 1) div 2 \<longrightarrow>
      createPackedMatrixTexture gl rows columns cfg calls = (Inl SizeError, calls))
   \<and> (snd (createAndConfigureTexture gl width height n iF tF tT calls) \<noteq> calls \<longrightarrow>
      width \<le> MAX_TEXTURE_SIZE gl \<and> height \<le> MAX_TEXTURE_SIZE gl)"
proof -
  have "width \<le> MAX_TEXTURE_SIZE gl \<and> height \<le> MAX_TEXTURE_SIZE gl"
    if "snd (createAndConfigureTexture gl width height n iF tF tT calls) \<noteq> calls"
  proof (rule ccontr)
    assume "\<not> (width \<le> MAX_TEXTURE_SIZE gl \<and> height \<le> MAX_TEXTURE_SIZE gl)"
    then have "MAX_TEXTURE_SIZE gl < width \<or> MAX_TEXTURE_SIZE gl < height"
      by auto
    from createAndConfigureTexture_oversize [OF this] that show False
      by simp
  qed
  then show ?thesis
    by (auto simp: createAndConfigureTexture_oversize createUploadMatrixTexture_def
          createRenderMatrixTexture_def createPixelDataTexture_def
          createPackedMatrixTexture_def packed_shape_div
        split: prod.splits simp del: One_nat_def)
qed

theorem oversize_fails_before_allocation_witness:
  "MAX_TEXTURE_SIZE webgl1_context < 100000
   \<and> MAX_TEXTURE_SIZE webgl1_context < snd (columns_by_rows 100000 1)
   \<and> MAX_TEXTURE_SIZE webgl1_context < (100000 + 1) div 2
   \<and> createAndConfigureTexture webgl1_context 1 100000 1 None None None [] = (Inl SizeError, [])
   \<and> createUploadMatrixTexture columns_by_rows webgl1_context 100000 1
        legacy_half_float_config [] = (Inl SizeError, [])
   \<and> createPackedMatrixTexture webgl1_context 100000 1 legacy_half_float_config []
        = (Inl SizeError, [])
   \<and> snd (createAndConfigureTexture webgl1_context 2 3 1 None None None []) \<noteq> []
   \<and> 2 \<le> MAX_TEXTURE_SIZE webgl1_context"
proof -
  have m: "MAX_TEXTURE_SIZE webgl1_context = 16384"
    by (simp add: webgl1_context_def)
  have s: "snd (createAndConfigureTexture webgl1_context 2 3 1 None None None []) \<noteq> []"
    using createAndConfigureTexture_ok [OF webgl1_context_no_error, of 2 3 1 None None None "[]"]
    by (simp add: m)
  from oversize_fails_before_allocation
         [of webgl1_context 1 100000 1 None None None "[]" columns_by_rows 100000 1
            legacy_half_float_config]
    oversize_fails_before_allocation
         [of webgl1_context 2 3 1 None None None "[]" columns_by_rows 1 1
            legacy_half_float_config] s
  show ?thesis
    by (simp add: m columns_by_rows_def)
qed

text \<open>
  C10. \<^verbatim>\<open>createAndConfigureTexture\<close> does the same for every channel count, and
  \<^verbatim>\<open>createPixelDataTexture\<close> does the same for every descriptor: it is the allocation
  with the formats RGBA, RGBA and the type UNSIGNED_BYTE, and every
  \<^verbatim>\<open>texImage2D\<close> call that it issues carries these three.
\<close>

theorem channel_count_unused:
  "createAndConfigureTexture gl width height numChannels iF tF tT calls
     = createAndConfigureTexture gl width height numChannels' iF tF tT calls
   \<and> createPixelDataTexture shape gl rows columns cfg calls
       = createPixelDataTexture shape gl rows columns cfg' calls
   \<and> createPixelDataTexture shape gl rows columns cfg calls
       = createAndConfigureTexture gl (fst (shape rows columns)) (snd (shape rows columns))
           numChannels (Some (RGBA gl)) (Some (RGBA gl)) (Some (UNSIGNED_BYTE gl)) calls
   \<and> (\<forall>c \<in> set (drop (length calls)
                    (snd (createPixelDataTexture shape gl rows columns cfg calls))).
        case c of
          TexImage2D t l a w h b f ty \<Rightarrow>
            a = Some (RGBA gl) \<and> f = Some (RGBA gl) \<and> ty = Some (UNSIGNED_BYTE gl)
        | _ \<Rightarrow> True)"
proof -
  have u: "createAndConfigureTexture gl w h m a f ty cs
             = createAndConfigureTexture gl w h m' a f ty cs" for w h m m' a f ty cs
    by (simp add: createAndConfigureTexture_def)
  have p: "createPixelDataTexture shape gl rows columns c cs
             = createAndConfigureTexture gl (fst (shape rows columns)) (snd (shape rows columns))
                 m (Some (RGBA gl)) (Some (RGBA gl)) (Some (UNSIGNED_BYTE gl)) cs" for c m cs
    by (simp add: createPixelDataTexture_def createAndConfigureTexture_def split: prod.splits)
  have t: "case c of
             TexImage2D t l a w h b f ty \<Rightarrow>
               a = Some (RGBA gl) \<and> f = Some (RGBA gl) \<and> ty = Some (UNSIGNED_BYTE gl)
           | _ \<Rightarrow> True"
    if "c \<in> set (drop (length calls)
                   (snd (createPixelDataTexture shape gl rows columns cfg calls)))" for c
  proof (cases c)
    case (TexImage2D t l a w h b f ty)
    with that have "TexImage2D t l a w h b f ty
        \<in> set (drop (length calls)
                 (snd (createAndConfigureTexture gl (fst (shape rows columns))
                         (snd (shape rows columns)) 4 (Some (RGBA gl)) (Some (RGBA gl))
                         (Some (UNSIGNED_BYTE gl)) calls)))"
      unfolding p [where c = cfg and m = 4 and cs = calls] by simp
    from createAndConfigureTexture_TexImage2D [OF this] TexImage2D show ?thesis
      by simp
  qed simp_all
  have d: "createPixelDataTexture shape gl rows columns cfg calls
             = createPixelDataTexture shape gl rows columns cfg' calls"
    by (simp add: createPixelDataTexture_def)
  show ?thesis
    by (intro conjI ballI) (rule u, rule d, rule p, erule t)
qed

theorem channel_count_unused_witness:
  "TexImage2D 3553 0 (Some 6408) 3 2 0 (Some 6408) (Some 5121)
     \<in> set (drop (length [])
              (snd (createPixelDataTexture columns_by_rows webgl1_context 2 3
                      legacy_half_float_config [])))
   \<and> Some 6408 = Some (RGBA webgl1_context)
   \<and> Some 5121 = Some (UNSIGNED_BYTE webgl1_context)
   \<and> Some 5121 \<noteq> Some (textureTypeUpload legacy_half_float_config)"
proof -
  have p: "createPixelDataTexture columns_by_rows webgl1_context 2 3 legacy_half_float_config []
             = createAndConfigureTexture webgl1_context 3 2 4 (Some 6408) (Some 6408)
                 (Some 5121) []"
    by (simp add: createPixelDataTexture_def columns_by_rows_def webgl1_context_def)
  have ok: "createAndConfigureTexture webgl1_context 3 2 4 (Some 6408) (Some 6408)
                 (Some 5121) [] =
     (Inr (count_list [] CreateTexture),
      [] @ [CreateTexture,
        BindTexture (TEXTURE_2D webgl1_context) (Some (count_list [] CreateTexture)),
        TexParameteri (TEXTURE_2D webgl1_context) (TEXTURE_WRAP_S webgl1_context)
          (CLAMP_TO_EDGE webgl1_context),
        TexParameteri (TEXTURE_2D webgl1_context) (TEXTURE_WRAP_T webgl1_context)
          (CLAMP_TO_EDGE webgl1_context),
        TexParameteri (TEXTURE_2D webgl1_context) (TEXTURE_MIN_FILTER webgl1_context)
          (NEAREST webgl1_context),
        TexParameteri (TEXTURE_2D webgl1_context) (TEXTURE_MAG_FILTER webgl1_context)
          (NEAREST webgl1_context),
        TexImage2D (TEXTURE_2D webgl1_context) 0 (Some 6408) 3 2 0 (Some 6408) (Some 5121),
        BindTexture (TEXTURE_2D webgl1_context) None])"
    by (rule createAndConfigureTexture_ok [OF webgl1_context_no_error])
      (simp_all add: webgl1_context_def)
  have m: "TexImage2D 3553 0 (Some 6408) 3 2 0 (Some 6408) (Some 5121)
     \<in> set (drop (length [])
              (snd (createPixelDataTexture columns_by_rows webgl1_context 2 3
                      legacy_half_float_config [])))"
    unfolding p ok
    by (simp add: webgl1_context_def)
  from channel_count_unused
         [of webgl1_context 3 2 4 "Some 6408" "Some 6408" "Some 5121" "[]" 1 columns_by_rows
            2 3 legacy_half_float_config legacy_half_float_config] m
  have "case TexImage2D 3553 0 (Some 6408) 3 2 0 (Some 6408) (Some 5121) of
          TexImage2D t l a w h b f ty \<Rightarrow>
            a = Some (RGBA webgl1_context) \<and> f = Some (RGBA webgl1_context)
            \<and> ty = Some (UNSIGNED_BYTE webgl1_context)
        | _ \<Rightarrow> True"
    by blast
  with m show ?thesis
    by (simp add: legacy_half_float_config_def)
qed

section \<open>Properties of the download\<close>

lemma length_chunks: "length (chunks n xs) = length xs div n"
  by (simp add: chunks_def)

lemma length_decodeMatrixFromUnpackedArray:
  "length (decodeMatrixFromUnpackedArray u m c) = length m"
  by (simp add: decodeMatrixFromUnpackedArray_def)

lemma overwrite_cases:
  "overwrite le (Float32Array xs) f
     = Float32Array (map (word_of_bytes le) (chunks 4 (map f [0..<4 * length xs])))"
  "overwrite le (Uint8Array bs) f = Uint8Array (map f [0..<length bs])"
  by (simp_all add: overwrite_def byteLength_def)

lemma decode_target_length:
  "decodeDownloadTargetArrayBuffer le env
     (overwrite le (getDownloadTargetArrayBuffer env rows columns c) f) rows columns c' = Inr m
   \<Longrightarrow> length m = rows * columns"
  by (auto simp: decodeDownloadTargetArrayBuffer_def getDownloadTargetArrayBuffer_def
        overwrite_cases new_Float32Array_def buffer_def Let_def length_chunks
        length_decodeMatrixFromUnpackedArray
      split: if_splits)

lemma decode_target_returns:
  "\<exists>m. decodeDownloadTargetArrayBuffer le env
     (overwrite le (getDownloadTargetArrayBuffer env rows columns c) f) rows columns c' = Inr m"
  by (auto simp: decodeDownloadTargetArrayBuffer_def getDownloadTargetArrayBuffer_def
        overwrite_cases new_Float32Array_def buffer_def Let_def
      split: if_splits)

lemma gl_then_fst_InrE:
  assumes "fst (gl_then m f calls) = Inr y"
  obtains x calls1 where "m calls = (Inr x, calls1)" and "fst (f x calls1) = Inr y"
  using assms by (auto simp: gl_then_def split: prod.splits sum.splits)

lemma gl_then_returns:
  assumes "m calls = (Inr x, calls1)" and "\<exists>y. fst (f x calls1) = Inr y"
  shows "\<exists>y. fst (gl_then m f calls) = Inr y"
  using assms by (simp add: gl_then_def)

lemma readPixels_Inr:
  assumes "readPixels le gl x y w h fmt ty target calls = (Inr filled, calls1)"
  shows "\<exists>f. filled = overwrite le target f"
  using assms
  by (auto simp: readPixels_def gl_then_def callAndCheck_def Let_def split: if_splits)

lemma readPixels_ok:
  "\<forall>cs. \<not> gl_error gl cs \<Longrightarrow>
   \<exists>f calls1. readPixels le gl x y w h fmt ty target calls
      = (Inr (overwrite le target f), calls1)"
  by (auto simp: readPixels_def gl_then_def callAndCheck_def)

lemma getBufferSubDataAsync_Inr:
  assumes "getBufferSubDataAsync le gl aext t off target calls = (Inr filled, calls1)"
  shows "\<exists>f. filled = overwrite le target f"
  using assms
  by (auto simp: getBufferSubDataAsync_def gl_then_def callAndCheck_def Let_def
      split: if_splits option.splits)

lemma sync_download_length:
  assumes "fst (downloadMatrixFromOutputTexture shape le env gl rows columns cfg ext calls)
             = Inr m"
  shows "length m = rows * columns"
proof -
  obtain w h where wh: "shape rows columns = (w, h)"
    by (cases "shape rows columns")
  from assms show ?thesis
    unfolding downloadMatrixFromOutputTexture_def Let_def wh prod.case
    by (elim gl_then_fst_InrE) (auto dest!: readPixels_Inr decode_target_length)
qed

lemma async_download_length:
  assumes "fst (downloadMatrixFromOutputTextureAsync le env gl aext rows columns cfg calls)
             = Inr m"
  shows "length m = rows * columns"
  using assms unfolding downloadMatrixFromOutputTextureAsync_def Let_def
  by (elim gl_then_fst_InrE) (auto dest!: getBufferSubDataAsync_Inr decode_target_length)

lemma sync_download_returns:
  assumes "\<forall>cs. \<not> gl_error gl cs"
  shows "\<exists>m. fst (downloadMatrixFromOutputTexture shape le env gl rows columns cfg ext calls)
               = Inr m"
proof -
  obtain w h where wh: "shape rows columns = (w, h)"
    by (cases "shape rows columns")
  let ?t = "getDownloadTargetArrayBuffer env rows columns (downloadUnpackNumChannels cfg)"
  from readPixels_ok [OF assms] obtain f calls1 where
    "readPixels le gl 0 0 w h (downloadTextureFormat cfg) (Some (downloadTextureType cfg)) ?t
       calls = (Inr (overwrite le ?t f), calls1)"
    by blast
  then show ?thesis
    unfolding downloadMatrixFromOutputTexture_def Let_def wh prod.case
    by (rule gl_then_returns) (simp add: decode_target_returns)
qed

lemma async_download_returns:
  assumes "\<forall>cs. \<not> gl_error gl cs" and "aext \<noteq> None"
  shows "\<exists>m. fst (downloadMatrixFromOutputTextureAsync le env gl aext rows columns cfg calls)
               = Inr m"
  using assms
  by (auto simp: downloadMatrixFromOutputTextureAsync_def Let_def gl_then_def createBuffer_def
        callAndCheck_def getBufferSubDataAsync_def decode_target_returns)

text \<open>
  C9. Whatever the download mode, a matrix that the synchronous or the asynchronous
  unpacked download returns has exactly rows * columns entries; and both return a
  matrix when the driver reports no error (and, for the asynchronous one, the extension
  object is there).
\<close>

theorem downloads_return_rows_times_columns:
  "(case fst (downloadMatrixFromOutputTexture shape le env gl rows columns cfg ext calls) of
      Inl e \<Rightarrow> True
    | Inr m \<Rightarrow> length m = rows * columns)
   \<and> (case fst (downloadMatrixFromOutputTextureAsync le env gl aext rows columns cfg calls) of
      Inl e \<Rightarrow> True
    | Inr m \<Rightarrow> length m = rows * columns)
   \<and> ((\<forall>cs. \<not> gl_error gl cs) \<longrightarrow>
        (\<exists>m. fst (downloadMatrixFromOutputTexture shape le env gl rows columns cfg ext calls)
                = Inr m \<and> length m = rows * columns))
   \<and> ((\<forall>cs. \<not> gl_error gl cs) \<and> aext \<noteq> None \<longrightarrow>
        (\<exists>m. fst (downloadMatrixFromOutputTextureAsync le env gl aext rows columns cfg calls)
                = Inr m \<and> length m = rows * columns))"
proof (intro conjI impI)
  show "case fst (downloadMatrixFromOutputTexture shape le env gl rows columns cfg ext calls) of
          Inl e \<Rightarrow> True
        | Inr m \<Rightarrow> length m = rows * columns"
    by (auto split: sum.splits dest: sync_download_length)
  show "case fst (downloadMatrixFromOutputTextureAsync le env gl aext rows columns cfg calls) of
          Inl e \<Rightarrow> True
        | Inr m \<Rightarrow> length m = rows * columns"
    by (auto split: sum.splits dest: async_download_length)
  show "\<exists>m. fst (downloadMatrixFromOutputTexture shape le env gl rows columns cfg ext calls)
               = Inr m \<and> length m = rows * columns"
    if "\<forall>cs. \<not> gl_error gl cs"
    using sync_download_returns [OF that] sync_download_length by blast
  show "\<exists>m. fst (downloadMatrixFromOutputTextureAsync le env gl aext rows columns cfg calls)
               = Inr m \<and> length m = rows * columns"
    if "(\<forall>cs. \<not> gl_error gl cs) \<and> aext \<noteq> None"
    using async_download_returns [of gl aext] that async_download_length by blast
qed

theorem downloads_return_rows_times_columns_witness:
  "(\<forall>cs. \<not> gl_error webgl2_context cs) \<and> Some () \<noteq> None
   \<and> (\<exists>m. fst (downloadMatrixFromOutputTexture columns_by_rows True legacy_env webgl2_context
                  2 3 legacy_half_float_config None []) = Inr m \<and> length m = 2 * 3)
   \<and> (\<exists>m. fst (downloadMatrixFromOutputTexture columns_by_rows True modern_env webgl2_context
                  2 3 legacy_half_float_config None []) = Inr m \<and> length m = 2 * 3)
   \<and> (\<exists>m. fst (downloadMatrixFromOutputTextureAsync True legacy_env webgl2_context (Some ())
                  2 3 legacy_half_float_config []) = Inr m \<and> length m = 2 * 3)
   \<and> (\<exists>m. fst (downloadMatrixFromOutputTextureAsync True modern_env webgl2_context (Some ())
                  2 3 legacy_half_float_config []) = Inr m \<and> length m = 2 * 3)"
proof -
  have ok: "\<forall>cs. \<not> gl_error webgl2_context cs"
    by (simp add: webgl2_context_def webgl1_context_def)
  from downloads_return_rows_times_columns
         [where shape = columns_by_rows and le = True and env = legacy_env
            and gl = webgl2_context and rows = 2 and columns = 3
            and cfg = legacy_half_float_config and ext = None and calls = "[]"
            and aext = "Some ()"]
    downloads_return_rows_times_columns
         [where shape = columns_by_rows and le = True and env = modern_env
            and gl = webgl2_context and rows = 2 and columns = 3
            and cfg = legacy_half_float_config and ext = None and calls = "[]"
            and aext = "Some ()"] ok
  show ?thesis
    by simp
qed

lemma upt_4: "[0..<4] = [0, 1, 2, 3::nat]"
  by (simp add: upt_rec)

lemma float32_bytes_inverse:
  fixes x :: float32
  shows "ucast (ucast x :: u8) OR push_bit 8 (ucast (ucast (drop_bit 8 x) :: u8)
           OR push_bit 8 (ucast (ucast (drop_bit 16 x) :: u8)
           OR push_bit 8 (ucast (ucast (drop_bit 24 x) :: u8)))) = x"
proof (rule bit_word_eqI)
  fix n
  assume "n < LENGTH(32)"
  then consider "n < 8" | "8 \<le> n" "n < 16" | "16 \<le> n" "n < 24" | "24 \<le> n" "n < 32"
    by fastforce
  then show "bit (ucast (ucast x :: u8) OR push_bit 8 (ucast (ucast (drop_bit 8 x) :: u8)
           OR push_bit 8 (ucast (ucast (drop_bit 16 x) :: u8)
           OR push_bit 8 (ucast (ucast (drop_bit 24 x) :: u8)))) :: float32) n = bit x n"
  proof cases
    case 1
    then show ?thesis by (auto simp: bit_simps)
  next
    case 2
    then have "8 + (n - 8) = n" by simp
    with 2 show ?thesis by (auto simp: bit_simps)
  next
    case 3
    then have "16 + (n - 16) = n" by simp
    with 3 show ?thesis by (auto simp: bit_simps)
  next
    case 4
    then have "24 + (n - 24) = n" by simp
    with 4 show ?thesis by (auto simp: bit_simps)
  qed
qed

lemma word_of_bytes_word_bytes:
  "word_of_bytes le (word_bytes le 4 x) = (x :: float32)"
  using float32_bytes_inverse [of x]
  by (cases le) (simp_all add: word_of_bytes_def word_bytes_def upt_4)

lemma length_word_bytes: "length (word_bytes le n x) = n"
  by (simp add: word_bytes_def Let_def)

lemma chunks_single: "length xs = n \<Longrightarrow> 0 < n \<Longrightarrow> chunks n xs = [xs]"
  by (simp add: chunks_def)

lemma byte_decode_general:
  assumes "\<not> WEBGL_DOWNLOAD_FLOAT_ENABLED env"
  shows "decodeDownloadTargetArrayBuffer le env (Uint8Array bytes) rows columns ch
           = (if length bytes mod 4 \<noteq> 0 then Inl RangeError
              else Inr (map (\<lambda>i. word_of_bytes le (take 4 (drop (4 * i) bytes)))
                          [0..<length bytes div 4]))"
  using assms
  by (simp add: decodeDownloadTargetArrayBuffer_def new_Float32Array_def buffer_def chunks_def
        comp_def)

lemma byte_decode_float:
  assumes "\<not> WEBGL_DOWNLOAD_FLOAT_ENABLED env"
  shows "decodeDownloadTargetArrayBuffer le env (Uint8Array (word_bytes le 4 x)) rows columns ch
           = Inr [x]"
  using assms
  by (simp add: decodeDownloadTargetArrayBuffer_def new_Float32Array_def buffer_def
        length_word_bytes chunks_single word_of_bytes_word_bytes)

lemma float32_value_one_and_a_half: "float32_value 1069547520 = Some (3 / 2)"
  by (simp add: float32_value_def)

text \<open>
  C2. With float download disabled, decoding a download target of bytes whose count is
  a multiple of four returns one float for each group of four bytes, and that float is
  the bit pattern made of these four bytes in the byte order of the platform: nothing
  is rescaled. So the four bytes of any float decode to that float; the bytes of a float
  whose value is 1.5 decode to an entry whose value is 1.5; and the bit pattern
  \<open>0x3FC00000\<close> is such a float.
\<close>

theorem byte_download_reinterprets:
  assumes "\<not> WEBGL_DOWNLOAD_FLOAT_ENABLED env"
  shows "(length bytes mod 4 = 0 \<longrightarrow>
            (\<exists>m. decodeDownloadTargetArrayBuffer le env (Uint8Array bytes) rows columns ch = Inr m
               \<and> length m = length bytes div 4
               \<and> (\<forall>i<length m. m ! i = word_of_bytes le (take 4 (drop (4 * i) bytes)))))
         \<and> decodeDownloadTargetArrayBuffer le env (Uint8Array (word_bytes le 4 x)) rows columns ch
             = Inr [x]
         \<and> (float32_value x = Some (3 / 2) \<longrightarrow>
              (\<exists>y. decodeDownloadTargetArrayBuffer le env (Uint8Array (word_bytes le 4 x))
                      rows columns ch = Inr [y]
                 \<and> float32_value y = Some (3 / 2)))
         \<and> float32_value 1069547520 = Some (3 / 2)"
proof (intro conjI impI)
  assume "length bytes mod 4 = 0"
  then show "\<exists>m. decodeDownloadTargetArrayBuffer le env (Uint8Array bytes) rows columns ch = Inr m
               \<and> length m = length bytes div 4
               \<and> (\<forall>i<length m. m ! i = word_of_bytes le (take 4 (drop (4 * i) bytes)))"
    by (simp add: byte_decode_general [OF assms])
next
  show "decodeDownloadTargetArrayBuffer le env (Uint8Array (word_bytes le 4 x)) rows columns ch
          = Inr [x]"
    by (rule byte_decode_float [OF assms])
next
  assume "float32_value x = Some (3 / 2)"
  then show "\<exists>y. decodeDownloadTargetArrayBuffer le env (Uint8Array (word_bytes le 4 x))
                      rows columns ch = Inr [y]
                 \<and> float32_value y = Some (3 / 2)"
    by (simp add: byte_decode_float [OF assms])
next
  show "float32_value 1069547520 = Some (3 / 2)"
    by (rule float32_value_one_and_a_half)
qed

theorem byte_download_reinterprets_witness:
  "\<not> WEBGL_DOWNLOAD_FLOAT_ENABLED legacy_env
   \<and> length [0, 0, 192, 63 :: u8] mod 4 = 0
   \<and> word_bytes True 4 (1069547520 :: float32) = [0, 0, 192, 63]
   \<and> float32_value 1069547520 = Some (3 / 2)
   \<and> decodeDownloadTargetArrayBuffer True legacy_env (Uint8Array [0, 0, 192, 63]) 1 1 4
       = Inr [1069547520]"
proof -
  have e: "\<not> WEBGL_DOWNLOAD_FLOAT_ENABLED legacy_env"
    by (simp add: legacy_env_def)
  have b: "word_bytes True 4 (1069547520 :: float32) = [0, 0, 192, 63]"
    by (simp add: word_bytes_def upt_4)
  from byte_download_reinterprets
         [OF e, where bytes = "[0, 0, 192, 63]" and le = True and rows = 1 and columns = 1
            and ch = 4 and x = 1069547520] b e
  show ?thesis
    by simp
qed

section \<open>Properties of the packed layout\<close>

subsection \<open>A sequence of guarded writes\<close>

lemma fold_writes_length:
  "length (fold (\<lambda>w xs. if ok w then xs[pos w := val w] else xs) ws xs) = length xs"
  by (induction ws arbitrary: xs) auto

text \<open>
  When the value of every write is a function \<open>g\<close> of the index it writes to, an index
  that some write reaches, or that held \<open>g\<close> of itself before, holds it afterwards,
  whatever the order of the writes.
\<close>

lemma fold_writes_nth:
  assumes "\<forall>w\<in>set ws. ok w \<longrightarrow> val w = g (pos w)"
    and "q < length xs"
    and "(\<exists>w\<in>set ws. ok w \<and> pos w = q) \<or> xs ! q = g q"
  shows "fold (\<lambda>w xs. if ok w then xs[pos w := val w] else xs) ws xs ! q = g q"
  using assms
proof (induction ws arbitrary: xs)
  case Nil
  then show ?case by simp
next
  case (Cons w ws)
  let ?xs = "if ok w then xs[pos w := val w] else xs"
  have len: "q < length ?xs"
    using Cons.prems(2) by simp
  have "(\<exists>w'\<in>set ws. ok w' \<and> pos w' = q) \<or> ?xs ! q = g q"
  proof (cases "\<exists>w'\<in>set ws. ok w' \<and> pos w' = q")
    case True
    then show ?thesis by simp
  next
    case later: False
    show ?thesis
    proof (cases "ok w \<and> pos w = q")
      case True
      with Cons.prems(1,2) show ?thesis by simp
    next
      case False
      with later Cons.prems(3) have "xs ! q = g q" by auto
      with False show ?thesis by auto
    qed
  qed
  with Cons.IH [of ?xs] Cons.prems(1) len show ?case
    by simp
qed

subsection \<open>The channels of a packed texture\<close>

lemma packed_slots_memberE:
  assumes "(s, i, j) \<in> set (packed_slots rows columns)"
  obtains py px k where "py < (rows + 1) div 2" "px < (columns + 1) div 2" "k < 4"
    "s = 4 * (py * ((columns + 1) div 2) + px) + k" "i = 2 * py + k div 2"
    "j = 2 * px + k mod 2"
  using assms unfolding packed_slots_def packed_shape_div Let_def prod.case
  by (auto simp del: One_nat_def)

lemma packed_slots_memberI:
  assumes "py < (rows + 1) div 2" "px < (columns + 1) div 2" "k < 4"
  shows "(4 * (py * ((columns + 1) div 2) + px) + k, 2 * py + k div 2, 2 * px + k mod 2)
           \<in> set (packed_slots rows columns)"
  using assms unfolding packed_slots_def packed_shape_div Let_def prod.case
  by (force simp del: One_nat_def)

lemma in_bounds_has_slot:
  assumes "i < rows" and "j < columns"
  shows "(packed_offset columns i j, i, j) \<in> set (packed_slots rows columns)"
proof -
  let ?k = "2 * (i mod 2) + j mod 2"
  have b: "i div 2 < (rows + 1) div 2" "j div 2 < (columns + 1) div 2"
    using assms by arith+
  have k: "?k < 4" by arith
  have kd: "?k div 2 = i mod 2" by arith
  have km: "?k mod 2 = j mod 2" by simp
  from packed_slots_memberI [OF b k]
  show ?thesis
    unfolding packed_offset_def kd km by simp
qed

lemma slot_is_offset:
  assumes "(s, i, j) \<in> set (packed_slots rows columns)"
  shows "s = packed_offset columns i j"
    and "s < getPackedRGBAArraySizeFromMatrixShape rows columns"
proof -
  let ?w = "(columns + 1) div 2" and ?h = "(rows + 1) div 2"
  from assms obtain py px k where b: "py < ?h" "px < ?w" "k < 4"
    and s: "s = 4 * (py * ?w + px) + k" and i: "i = 2 * py + k div 2"
    and j: "j = 2 * px + k mod 2"
    by (rule packed_slots_memberE)
  have "i div 2 = py" "j div 2 = px"
    using b(3) unfolding i j by arith+
  moreover have "i mod 2 = k div 2"
    using b(3) unfolding i by simp
  moreover have "j mod 2 = k mod 2"
    unfolding j by simp
  ultimately show "s = packed_offset columns i j"
    by (simp add: packed_offset_def s)
  have "py * ?w + px < py * ?w + ?w" using b(2) by simp
  also have "\<dots> = (Suc py) * ?w" by simp
  also have "\<dots> \<le> ?h * ?w" using b(1) by (intro mult_le_mono1) simp
  finally have "py * ?w + px < ?h * ?w" .
  then have "s < 4 * (?h * ?w)" using b(3) unfolding s by arith
  then show "s < getPackedRGBAArraySizeFromMatrixShape rows columns"
    by (simp add: getPackedRGBAArraySizeFromMatrixShape_def packed_shape_div mult.commute)
qed

lemma div_mod_4:
  fixes t k :: nat
  assumes "k < 4"
  shows "(4 * t + k) div 4 = t" and "(4 * t + k) mod 4 = k"
  using assms by arith+

lemma slot_position_offset:
  assumes "j < columns"
  shows "slot_position columns (packed_offset columns i j) = (i, j)"
proof -
  let ?w = "(columns + 1) div 2"
  let ?k = "2 * (i mod 2) + j mod 2"
  have px: "j div 2 < ?w" using assms by arith
  have k: "?k < 4" by arith
  have d4: "packed_offset columns i j div 4 = (i div 2) * ?w + j div 2"
    unfolding packed_offset_def by (rule div_mod_4(1) [OF k])
  have m4: "packed_offset columns i j mod 4 = ?k"
    unfolding packed_offset_def by (rule div_mod_4(2) [OF k])
  have "((i div 2) * ?w + j div 2) div ?w = i div 2"
    using px by simp
  moreover have "((i div 2) * ?w + j div 2) mod ?w = j div 2"
    using px by simp
  moreover have "?k div 2 = i mod 2" by arith
  moreover have "?k mod 2 = j mod 2" by simp
  ultimately show ?thesis
    unfolding slot_position_def d4 m4 by simp
qed

subsection \<open>Encoding and decoding, entry by entry\<close>

lemma decode_writes:
  "(\<lambda>(slot, i, j) matrix.
      if i < rows \<and> j < columns then matrix[i * columns + j := rgba ! slot] else matrix)
   = (\<lambda>w xs. if (case w of (slot, i, j) \<Rightarrow> i < rows \<and> j < columns)
               then xs[(case w of (slot, i, j) \<Rightarrow> i * columns + j)
                         := (case w of (slot, i, j) \<Rightarrow> rgba ! slot)]
               else xs)"
  by (auto simp: fun_eq_iff)

lemma encode_writes:
  "(\<lambda>(slot, i, j) rgba.
      if i < rows \<and> j < columns then rgba[slot := matrix ! (i * columns + j)] else rgba)
   = (\<lambda>w xs. if (case w of (slot, i, j) \<Rightarrow> i < rows \<and> j < columns)
               then xs[(case w of (slot, i, j) \<Rightarrow> slot)
                         := (case w of (slot, i, j) \<Rightarrow> matrix ! (i * columns + j))]
               else xs)"
  by (auto simp: fun_eq_iff)

lemma length_decode_texels: "length (decode_texels rgba rows columns) = rows * columns"
  unfolding decode_texels_def decode_writes by (simp add: fold_writes_length)

lemma length_encode_texels:
  "length (encode_texels matrix rows columns)
     = getPackedRGBAArraySizeFromMatrixShape rows columns"
  unfolding encode_texels_def encode_writes by (simp add: fold_writes_length)

lemma index_in_bounds:
  fixes q rows columns :: nat
  assumes "q < rows * columns"
  shows "q div columns < rows" and "q mod columns < columns"
proof -
  have c: "0 < columns"
    using assms by (cases columns) auto
  show "q div columns < rows"
    using assms c by (simp add: less_mult_imp_div_less)
  show "q mod columns < columns"
    using c by simp
qed

lemma decode_texels_nth:
  assumes "q < rows * columns"
  shows "decode_texels rgba rows columns ! q
           = rgba ! packed_offset columns (q div columns) (q mod columns)"
proof -
  note ij = index_in_bounds [OF assms]
  let ?g = "\<lambda>p. rgba ! packed_offset columns (p div columns) (p mod columns)"
  show ?thesis
    unfolding decode_texels_def decode_writes
  proof (rule fold_writes_nth [where g = ?g])
    show "\<forall>w\<in>set (packed_slots rows columns).
            (case w of (slot, i, j) \<Rightarrow> i < rows \<and> j < columns) \<longrightarrow>
            (case w of (slot, i, j) \<Rightarrow> rgba ! slot)
              = ?g (case w of (slot, i, j) \<Rightarrow> i * columns + j)"
      by (auto dest: slot_is_offset(1))
    show "q < length (replicate (rows * columns) (0::float32))"
      using assms by simp
    have "(packed_offset columns (q div columns) (q mod columns), q div columns, q mod columns)
            \<in> set (packed_slots rows columns)"
      using ij by (rule in_bounds_has_slot)
    then show "(\<exists>w\<in>set (packed_slots rows columns).
            (case w of (slot, i, j) \<Rightarrow> i < rows \<and> j < columns) \<and>
            (case w of (slot, i, j) \<Rightarrow> i * columns + j) = q) \<or>
          replicate (rows * columns) 0 ! q = ?g q"
      using ij by (intro disjI1 bexI) auto
  qed
qed

lemma encode_texels_nth:
  assumes "i < rows" and "j < columns"
  shows "encode_texels matrix rows columns ! packed_offset columns i j
           = matrix ! (i * columns + j)"
proof -
  let ?g = "\<lambda>s. matrix ! (fst (slot_position columns s) * columns
                            + snd (slot_position columns s))"
  have mem: "(packed_offset columns i j, i, j) \<in> set (packed_slots rows columns)"
    using assms by (rule in_bounds_has_slot)
  have "encode_texels matrix rows columns ! packed_offset columns i j
          = ?g (packed_offset columns i j)"
    unfolding encode_texels_def encode_writes
  proof (rule fold_writes_nth [where g = ?g])
    show "\<forall>w\<in>set (packed_slots rows columns).
            (case w of (slot, i, j) \<Rightarrow> i < rows \<and> j < columns) \<longrightarrow>
            (case w of (slot, i, j) \<Rightarrow> matrix ! (i * columns + j))
              = ?g (case w of (slot, i, j) \<Rightarrow> slot)"
      by (auto dest!: slot_is_offset(1) simp: slot_position_offset)
    show "packed_offset columns i j
            < length (replicate (getPackedRGBAArraySizeFromMatrixShape rows columns) (0::float32))"
      using slot_is_offset(2) [OF mem] by simp
    show "(\<exists>w\<in>set (packed_slots rows columns).
            (case w of (slot, i, j) \<Rightarrow> i < rows \<and> j < columns) \<and>
            (case w of (slot, i, j) \<Rightarrow> slot) = packed_offset columns i j) \<or>
          replicate (getPackedRGBAArraySizeFromMatrixShape rows columns) 0
              ! packed_offset columns i j
            = ?g (packed_offset columns i j)"
      using mem assms by (intro disjI1 bexI [of _ "(packed_offset columns i j, i, j)"]) auto
  qed
  then show ?thesis
    using assms by (simp add: slot_position_offset)
qed

lemma decode_encode_texels:
  assumes "length matrix = rows * columns"
  shows "decode_texels (encode_texels matrix rows columns) rows columns = matrix"
proof (rule nth_equalityI)
  show "length (decode_texels (encode_texels matrix rows columns) rows columns) = length matrix"
    using assms by (simp add: length_decode_texels)
next
  fix q
  assume "q < length (decode_texels (encode_texels matrix rows columns) rows columns)"
  then have q: "q < rows * columns"
    by (simp add: length_decode_texels)
  note ij = index_in_bounds [OF q]
  show "decode_texels (encode_texels matrix rows columns) rows columns ! q = matrix ! q"
    by (simp add: decode_texels_nth [OF q] encode_texels_nth [OF ij])
qed

text \<open>Decoding reads only the channels whose logical position is within the matrix.\<close>

lemma decode_texels_cong:
  assumes "\<forall>(s, i, j)\<in>set (packed_slots rows columns). i < rows \<and> j < columns \<longrightarrow> a ! s = b ! s"
  shows "decode_texels a rows columns = decode_texels b rows columns"
proof (rule nth_equalityI)
  show "length (decode_texels a rows columns) = length (decode_texels b rows columns)"
    by (simp add: length_decode_texels)
next
  fix q
  assume "q < length (decode_texels a rows columns)"
  then have q: "q < rows * columns"
    by (simp add: length_decode_texels)
  note ij = index_in_bounds [OF q]
  from in_bounds_has_slot [OF ij] assms ij
  have "a ! packed_offset columns (q div columns) (q mod columns)
          = b ! packed_offset columns (q div columns) (q mod columns)"
    by fastforce
  then show "decode_texels a rows columns ! q = decode_texels b rows columns ! q"
    by (simp add: decode_texels_nth [OF q])
qed

lemma packed_slots_3x3:
  "packed_slots 3 3 =
     [(0, 0, 0), (1, 0, 1), (2, 1, 0), (3, 1, 1),
      (4, 0, 2), (5, 0, 3), (6, 1, 2), (7, 1, 3),
      (8, 2, 0), (9, 2, 1), (10, 3, 0), (11, 3, 1),
      (12, 2, 2), (13, 2, 3), (14, 3, 2), (15, 3, 3)]"
  by (simp add: packed_slots_def packed_shape_div upt_rec)

text \<open>
  C1. For a matrix of rows * columns entries, encoding succeeds, gives a buffer of four
  channels for each texel, and decoding that buffer with the same shape gives the matrix
  back, every entry bit for bit, for even and odd row and column counts alike. The
  decoder reads no channel whose logical position is beyond the bounds of the matrix:
  any buffer at least as long that agrees with the encoding on the channels of the
  positions within the bounds decodes to the same matrix, whatever its other channels
  and its excess hold.
\<close>

theorem packed_round_trip:
  assumes "length M = rows * columns"
  shows "\<exists>rgba. encodePackedRGBA M rows columns = Inr rgba
           \<and> length rgba = getPackedRGBAArraySizeFromMatrixShape rows columns
           \<and> decodePackedRGBA rgba rows columns = Inr M
           \<and> (\<forall>rgba'. length rgba \<le> length rgba'
                  \<and> (\<forall>(s, i, j)\<in>set (packed_slots rows columns).
                        i < rows \<and> j < columns \<longrightarrow> rgba' ! s = rgba ! s)
                \<longrightarrow> decodePackedRGBA rgba' rows columns = Inr M)"
proof (intro exI conjI allI impI)
  show "encodePackedRGBA M rows columns = Inr (encode_texels M rows columns)"
    using assms by (simp add: encodePackedRGBA_def)
  show "length (encode_texels M rows columns)
          = getPackedRGBAArraySizeFromMatrixShape rows columns"
    by (rule length_encode_texels)
  show "decodePackedRGBA (encode_texels M rows columns) rows columns = Inr M"
    using assms by (simp add: decodePackedRGBA_def length_encode_texels decode_encode_texels)
next
  fix rgba'
  assume a: "length (encode_texels M rows columns) \<le> length rgba'
               \<and> (\<forall>(s, i, j)\<in>set (packed_slots rows columns).
                     i < rows \<and> j < columns \<longrightarrow> rgba' ! s = encode_texels M rows columns ! s)"
  then have "decode_texels rgba' rows columns
               = decode_texels (encode_texels M rows columns) rows columns"
    by (intro decode_texels_cong) simp
  with a assms show "decodePackedRGBA rgba' rows columns = Inr M"
    by (simp add: decodePackedRGBA_def length_encode_texels decode_encode_texels)
qed

theorem packed_round_trip_witness:
  "length matrix_3x3 = 3 * 3
   \<and> encodePackedRGBA matrix_3x3 3 3 = Inr packed_3x3
   \<and> decodePackedRGBA packed_3x3 3 3 = Inr matrix_3x3
   \<and> length packed_3x3 \<le> length packed_3x3_dirty
   \<and> decodePackedRGBA packed_3x3_dirty 3 3 = Inr matrix_3x3"
proof -
  have len: "length matrix_3x3 = 3 * 3"
    by (simp add: matrix_3x3_def)
  have enc: "encodePackedRGBA matrix_3x3 3 3 = Inr packed_3x3"
    by code_simp
  have agree: "length packed_3x3 \<le> length packed_3x3_dirty
                 \<and> (\<forall>(s, i, j)\<in>set (packed_slots 3 3).
                       i < 3 \<and> j < 3 \<longrightarrow> packed_3x3_dirty ! s = packed_3x3 ! s)"
    by (simp add: packed_slots_3x3 packed_3x3_def packed_3x3_dirty_def)
  from packed_round_trip [OF len] enc agree len show ?thesis
    by auto
qed


end
